theory Spec2Isabelle
  imports Main "HOL-Library.Multiset"
begin

section \<open>Data model\<close>

text \<open>
  The rows of the two tables of the Prisma schema (\<open>User\<close>: id, name, email;
  \<open>Event\<close>: id, name, location, startTime) and the implicit join table of the
  many-to-many relation \<open>UserEvents\<close>, whose rows pair an event id with a user id.
  Strings are character lists, a \<open>DateTime\<close> is its number of milliseconds since
  the epoch.
\<close>

record user =
  user_id :: string
  user_name :: string
  user_email :: string

record event =
  event_id :: string
  event_name :: string
  event_location :: string
  event_startTime :: int

text \<open>An event row read with \<open>include: { attendees: true }\<close>.\<close>

record event_incl = event +
  attendees :: "user list"

record store =
  user_table :: "user list"
  event_table :: "event list"
  UserEvents :: "(string \<times> string) list"

text \<open>
  What a resolver throws: \<open>new Error(message)\<close>. A rejected store call is an
  \<open>Error\<close> with the store's message.
\<close>

datatype error = Error string

text \<open>The socket.io side: what was emitted, and to whom.\<close>

record JoinEventPayload =
  payload_eventId :: string
  payload_user :: user
  payload_attendees :: "user list"

datatype emitted =
    userJoined JoinEventPayload
  | userLeft JoinEventPayload
  | eventUpdated string "user list"

datatype target = To_room string | To_all

record world =
  prisma :: store
  io :: "(target \<times> emitted) list"

section \<open>The store calls the resolvers make\<close>

text \<open>\<open>prisma.user.findUnique({ where: { email } })\<close>\<close>

definition user_findUnique :: "string \<Rightarrow> store \<Rightarrow> user option" where
  "user_findUnique email s = find (\<lambda>u. user_email u = email) (user_table s)"

text \<open>The attendees of an event: the users the join table connects to its id.\<close>

definition attendees_of :: "store \<Rightarrow> string \<Rightarrow> user list" where
  "attendees_of s eid = filter (\<lambda>u. (eid, user_id u) \<in> set (UserEvents s)) (user_table s)"

definition include_attendees :: "store \<Rightarrow> event \<Rightarrow> event_incl" where
  "include_attendees s e =
     \<lparr> event_id = event_id e, event_name = event_name e,
       event_location = event_location e, event_startTime = event_startTime e,
       attendees = attendees_of s (event_id e) \<rparr>"

text \<open>\<open>prisma.event.findUnique({ where: { id }, include: { attendees: true } })\<close>\<close>

definition event_findUnique :: "string \<Rightarrow> store \<Rightarrow> event_incl option" where
  "event_findUnique eid s =
     map_option (include_attendees s) (find (\<lambda>e. event_id e = eid) (event_table s))"

text \<open>
  \<open>prisma.user.create({ data: { email, name } })\<close>. The id is the database's
  \<open>@default(cuid())\<close>, here the argument \<open>cuid\<close>. The call is rejected, and
  writes nothing, when the new row would break \<open>@id\<close> or \<open>@unique\<close>.
\<close>

definition user_create :: "string \<Rightarrow> string \<Rightarrow> string \<Rightarrow> store \<Rightarrow> user option \<times> store" where
  "user_create cuid email name s =
     (if cuid \<in> set (map user_id (user_table s)) \<or> email \<in> set (map user_email (user_table s))
      then (None, s)
      else let u = \<lparr> user_id = cuid, user_name = name, user_email = email \<rparr>
           in (Some u, s\<lparr> user_table := user_table s @ [u] \<rparr>))"

text \<open>
  \<open>prisma.event.update({ where: { id }, data: { attendees: { connect: { id: uid } } },
  include: { attendees: true } })\<close>: rejected, writing nothing, when the event row or
  the user row to connect is missing; connecting a pair twice keeps one row.
\<close>

definition event_update_connect :: "string \<Rightarrow> string \<Rightarrow> store \<Rightarrow> event_incl option \<times> store" where
  "event_update_connect eid uid s =
     (case find (\<lambda>e. event_id e = eid) (event_table s) of
        None \<Rightarrow> (None, s)
      | Some e \<Rightarrow>
          if uid \<notin> set (map user_id (user_table s)) then (None, s)
          else let s' = s\<lparr> UserEvents := List.insert (eid, uid) (UserEvents s) \<rparr>
               in (Some (include_attendees s' e), s'))"

text \<open>The same call with \<open>disconnect: { id: uid }\<close>; a pair that is not connected is left alone.\<close>

definition event_update_disconnect :: "string \<Rightarrow> string \<Rightarrow> store \<Rightarrow> event_incl option \<times> store" where
  "event_update_disconnect eid uid s =
     (case find (\<lambda>e. event_id e = eid) (event_table s) of
        None \<Rightarrow> (None, s)
      | Some e \<Rightarrow>
          let s' = s\<lparr> UserEvents := removeAll (eid, uid) (UserEvents s) \<rparr>
          in (Some (include_attendees s' e), s'))"

text \<open>
  \<open>prisma.event.findMany({ include: { attendees: true }, orderBy: { startTime: 'asc' } })\<close>
\<close>

definition event_findMany :: "store \<Rightarrow> event_incl list" where
  "event_findMany s = map (include_attendees s) (sort_key event_startTime (event_table s))"

section \<open>String helpers of the resolvers\<close>

text \<open>
  A string is the list of the bytes of its UTF-8 text. No byte of a character outside
  ASCII is \<open>@\<close> or lies in \<open>[a-zA-Z0-9]\<close>, so splitting at \<open>@\<close> and stripping
  by the class give the bytes of what the source computes on its code units.
\<close>

text \<open>\<open>s.split('@')[0]\<close>: the text before the first \<open>@\<close>, all of it when there is none.\<close>

definition split_at_0 :: "string \<Rightarrow> string" where
  "split_at_0 s = takeWhile (\<lambda>c. c \<noteq> CHR ''@'') s"

text \<open>The character class \<open>[a-zA-Z0-9]\<close>.\<close>

definition alnum :: "char \<Rightarrow> bool" where
  "alnum c = (let n = (of_char c :: nat) in
     (97 \<le> n \<and> n \<le> 122) \<or> (65 \<le> n \<and> n \<le> 90) \<or> (48 \<le> n \<and> n \<le> 57))"

text \<open>\<open>email.split('@')[0].replace(/[^a-zA-Z0-9]/g, '') || 'User'\<close>\<close>

definition me_name :: "string \<Rightarrow> string" where
  "me_name email =
     (let n = filter alnum (split_at_0 email) in if n = [] then ''User'' else n)"

section \<open>Resolvers\<close>

text \<open>
  A resolver takes the world (the store and the messages emitted so far) and returns
  what it resolves to, or the error it throws, with the world it leaves. The calls run
  one after the other. \<open>cuid\<close> is the id the store generates if the call creates a
  user row. The \<open>catch\<close> blocks log and rethrow, so they are not branches here.
\<close>

definition events :: "world \<Rightarrow> event_incl list" where
  "events w = event_findMany (prisma w)"

definition me :: "string \<Rightarrow> string \<Rightarrow> world \<Rightarrow> (error + user) \<times> world" where
  "me cuid email w =
     (if email = [] \<or> CHR ''@'' \<notin> set email
      then (Inl (Error ''Valid email is required''), w)
      else case user_findUnique email (prisma w) of
             Some u \<Rightarrow> (Inr u, w)
           | None \<Rightarrow>
               (case user_create cuid email (me_name email) (prisma w) of
                  (None, s) \<Rightarrow> (Inl (Error ''Unique constraint failed''), w\<lparr> prisma := s \<rparr>)
                | (Some u, s) \<Rightarrow> (Inr u, w\<lparr> prisma := s \<rparr>)))"

definition joinEvent :: "string \<Rightarrow> string \<Rightarrow> string \<Rightarrow> world \<Rightarrow> (error + event_incl) \<times> world" where
  "joinEvent cuid eventId userEmail w =
     (if eventId = [] \<or> userEmail = []
      then (Inl (Error ''Event ID and user email are required''), w)
      else case event_findUnique eventId (prisma w) of
        None \<Rightarrow> (Inl (Error ''Event not found''), w)
      | Some existingEvent \<Rightarrow>
          (case (case user_findUnique userEmail (prisma w) of
                   Some u \<Rightarrow> (Some u, prisma w)
                 | None \<Rightarrow> user_create cuid userEmail (split_at_0 userEmail) (prisma w)) of
             (None, s) \<Rightarrow> (Inl (Error ''Unique constraint failed''), w\<lparr> prisma := s \<rparr>)
           | (Some user, s) \<Rightarrow>
               if list_ex (\<lambda>attendee. user_email attendee = userEmail) (attendees existingEvent)
               then (Inr existingEvent, w\<lparr> prisma := s \<rparr>)
               else (case event_update_connect eventId (user_id user) s of
                       (None, s') \<Rightarrow> (Inl (Error ''Record to update not found''), w\<lparr> prisma := s' \<rparr>)
                     | (Some event, s') \<Rightarrow>
                         (Inr event,
                          \<lparr> prisma = s',
                            io = io w @
                              [(To_room (''event-'' @ eventId),
                                userJoined \<lparr> payload_eventId = eventId, payload_user = user,
                                             payload_attendees = attendees event \<rparr>),
                               (To_all, eventUpdated eventId (attendees event))] \<rparr>))))"

definition leaveEvent :: "string \<Rightarrow> string \<Rightarrow> world \<Rightarrow> (error + event_incl) \<times> world" where
  "leaveEvent eventId userEmail w =
     (if eventId = [] \<or> userEmail = []
      then (Inl (Error ''Event ID and user email are required''), w)
      else case event_findUnique eventId (prisma w) of
        None \<Rightarrow> (Inl (Error ''Event not found''), w)
      | Some existingEvent \<Rightarrow>
          (case user_findUnique userEmail (prisma w) of
             None \<Rightarrow> (Inl (Error ''User not found''), w)
           | Some user \<Rightarrow>
               if \<not> list_ex (\<lambda>attendee. user_email attendee = userEmail) (attendees existingEvent)
               then (Inr existingEvent, w)
               else (case event_update_disconnect eventId (user_id user) (prisma w) of
                       (None, s') \<Rightarrow> (Inl (Error ''Record to update not found''), w\<lparr> prisma := s' \<rparr>)
                     | (Some event, s') \<Rightarrow>
                         (Inr event,
                          \<lparr> prisma = s',
                            io = io w @
                              [(To_room (''event-'' @ eventId),
                                userLeft \<lparr> payload_eventId = eventId, payload_user = user,
                                           payload_attendees = attendees event \<rparr>),
                               (To_all, eventUpdated eventId (attendees event))] \<rparr>))))"

section \<open>The seeded store\<close>

text \<open>
  The rows \<open>seed()\<close> creates: three users, three events, Alice and Bob at the first
  event and Alice at the second. The ids stand for the generated ones.
\<close>

definition alice :: user where
  "alice = \<lparr> user_id = ''u1'', user_name = ''Alice Johnson'', user_email = ''alice@example.com'' \<rparr>"

definition bob :: user where
  "bob = \<lparr> user_id = ''u2'', user_name = ''Bob Smith'', user_email = ''bob@example.com'' \<rparr>"

definition charlie :: user where
  "charlie = \<lparr> user_id = ''u3'', user_name = ''Charlie Brown'', user_email = ''charlie@example.com'' \<rparr>"

definition tech_meetup :: event where
  "tech_meetup = \<lparr> event_id = ''e1'', event_name = ''Tech Meetup'',
     event_location = ''Downtown Hall'', event_startTime = 1734717600000 \<rparr>"

definition music_festival :: event where
  "music_festival = \<lparr> event_id = ''e2'', event_name = ''Music Festival'',
     event_location = ''City Park'', event_startTime = 1734879600000 \<rparr>"

definition food_fair :: event where
  "food_fair = \<lparr> event_id = ''e3'', event_name = ''Food Fair'',
     event_location = ''Main Street'', event_startTime = 1735128000000 \<rparr>"

definition seed :: store where
  "seed =
     \<lparr> user_table = [alice, bob, charlie],
       event_table = [tech_meetup, music_festival, food_fair],
       UserEvents = [(''e1'', ''u1''), (''e1'', ''u2''), (''e2'', ''u1'')] \<rparr>"

definition seeded :: world where
  "seeded = \<lparr> prisma = seed, io = [] \<rparr>"

section \<open>Well-formed stores\<close>

text \<open>
  What the schema enforces (ids and emails are unique, the join table holds each pair
  once and only pairs of existing rows) and what every path that creates a row keeps
  (a generated event id and a stored email are never empty).
\<close>

definition wf_store :: "store \<Rightarrow> bool" where
  "wf_store s \<longleftrightarrow>
     distinct (map user_id (user_table s)) \<and>
     distinct (map user_email (user_table s)) \<and>
     distinct (map event_id (event_table s)) \<and>
     distinct (UserEvents s) \<and>
     list_all (\<lambda>(eid, uid). eid \<in> set (map event_id (event_table s)) \<and>
                             uid \<in> set (map user_id (user_table s))) (UserEvents s) \<and>
     list_all (\<lambda>u. user_email u \<noteq> []) (user_table s) \<and>
     list_all (\<lambda>e. event_id e \<noteq> []) (event_table s)"

section \<open>Facts about the store calls\<close>

lemma find_event_id:
  "find (\<lambda>e. event_id e = eid) es = Some e \<Longrightarrow> event_id e = eid \<and> e \<in> set es"
  by (auto simp: find_Some_iff)

lemma find_user_email:
  "find (\<lambda>u. user_email u = em) us = Some u \<Longrightarrow> user_email u = em \<and> u \<in> set us"
  by (auto simp: find_Some_iff)

lemma user_findUnique_Some:
  "user_findUnique em s = Some u \<Longrightarrow> user_email u = em \<and> u \<in> set (user_table s)"
  unfolding user_findUnique_def by (rule find_user_email)

lemma user_findUnique_None:
  "user_findUnique em s = None \<longleftrightarrow> em \<notin> set (map user_email (user_table s))"
  unfolding user_findUnique_def by (auto simp: find_None_iff)

lemma event_findUnique_Some:
  "event_findUnique eid s = Some ev \<Longrightarrow>
     \<exists>e. find (\<lambda>e. event_id e = eid) (event_table s) = Some e \<and> ev = include_attendees s e \<and>
         event_id e = eid \<and> e \<in> set (event_table s)"
  unfolding event_findUnique_def by (auto dest: find_event_id)

lemma event_findUnique_None:
  "event_findUnique eid s = None \<longleftrightarrow> eid \<notin> set (map event_id (event_table s))"
  unfolding event_findUnique_def by (auto simp: find_None_iff)

lemma attendees_include [simp]: "attendees (include_attendees s e) = attendees_of s (event_id e)"
  by (simp add: include_attendees_def)

lemma event_id_include [simp]: "event_id (include_attendees s e) = event_id e"
  by (simp add: include_attendees_def)

lemma attendee_in_table: "a \<in> set (attendees_of s eid) \<Longrightarrow> a \<in> set (user_table s)"
  by (simp add: attendees_of_def)

lemma user_create_None: "user_create c em n s = (None, s') \<Longrightarrow> s' = s"
  by (auto simp: user_create_def Let_def split: if_splits)

lemma user_create_Some:
  "user_create c em n s = (Some u, s') \<Longrightarrow>
     u = \<lparr> user_id = c, user_name = n, user_email = em \<rparr> \<and>
     s' = s\<lparr> user_table := user_table s @ [u] \<rparr> \<and>
     c \<notin> set (map user_id (user_table s)) \<and> em \<notin> set (map user_email (user_table s))"
  by (auto simp: user_create_def Let_def split: if_splits)

lemma user_create_fresh:
  "c \<notin> set (map user_id (user_table s)) \<Longrightarrow> em \<notin> set (map user_email (user_table s)) \<Longrightarrow>
   user_create c em n s =
     (Some \<lparr> user_id = c, user_name = n, user_email = em \<rparr>,
      s\<lparr> user_table := user_table s @ [\<lparr> user_id = c, user_name = n, user_email = em \<rparr>] \<rparr>)"
  by (simp add: user_create_def Let_def)

section \<open>The runs of joinEvent\<close>

lemma joinEvent_invalid:
  "eventId = [] \<or> userEmail = [] \<Longrightarrow>
   joinEvent cuid eventId userEmail w = (Inl (Error ''Event ID and user email are required''), w)"
  by (simp add: joinEvent_def)

lemma joinEvent_no_event:
  "eventId \<noteq> [] \<Longrightarrow> userEmail \<noteq> [] \<Longrightarrow> event_findUnique eventId (prisma w) = None \<Longrightarrow>
   joinEvent cuid eventId userEmail w = (Inl (Error ''Event not found''), w)"
  by (simp add: joinEvent_def)

lemma joinEvent_already:
  assumes "eventId \<noteq> []" "userEmail \<noteq> []"
    and ev: "event_findUnique eventId (prisma w) = Some ev"
    and a: "a \<in> set (attendees ev)" "user_email a = userEmail"
  shows "joinEvent cuid eventId userEmail w = (Inr ev, w)"
proof -
  from ev obtain e where e: "ev = include_attendees (prisma w) e" "event_id e = eventId"
    by (auto dest: event_findUnique_Some)
  with a have "a \<in> set (user_table (prisma w))"
    by (auto dest: attendee_in_table)
  with a have "user_findUnique userEmail (prisma w) \<noteq> None"
    by (auto simp: user_findUnique_None)
  then obtain u where u: "user_findUnique userEmail (prisma w) = Some u" by auto
  have "list_ex (\<lambda>x. user_email x = userEmail) (attendees ev)"
    using a by (auto simp: list_ex_iff)
  with assms(1,2) ev u show ?thesis
    by (simp add: joinEvent_def)
qed

lemma joinEvent_existing_user:
  assumes "eventId \<noteq> []" "userEmail \<noteq> []"
    and ev: "event_findUnique eventId (prisma w) = Some ev"
    and na: "\<not> (\<exists>a \<in> set (attendees ev). user_email a = userEmail)"
    and u: "user_findUnique userEmail (prisma w) = Some u"
    and s2: "s2 = (prisma w)\<lparr> UserEvents := List.insert (eventId, user_id u) (UserEvents (prisma w)) \<rparr>"
  shows "joinEvent cuid eventId userEmail w =
     (Inr (ev\<lparr> attendees := attendees_of s2 eventId \<rparr>),
      \<lparr> prisma = s2,
        io = io w @
          [(To_room (''event-'' @ eventId),
            userJoined \<lparr> payload_eventId = eventId, payload_user = u,
              payload_attendees = attendees_of s2 eventId \<rparr>),
           (To_all, eventUpdated eventId (attendees_of s2 eventId))] \<rparr>)"
proof -
  from ev obtain e where e: "find (\<lambda>e. event_id e = eventId) (event_table (prisma w)) = Some e"
    "ev = include_attendees (prisma w) e" "event_id e = eventId"
    by (auto dest: event_findUnique_Some)
  from u have uin: "user_id u \<in> set (map user_id (user_table (prisma w)))"
    by (auto dest: user_findUnique_Some)
  have nl: "\<not> list_ex (\<lambda>x. user_email x = userEmail) (attendees ev)"
    using na by (simp add: list_ex_iff)
  show ?thesis
    using assms(1,2) ev u nl e uin s2
    by (simp add: joinEvent_def event_update_connect_def Let_def include_attendees_def)
qed

lemma joinEvent_new_user:
  assumes "eventId \<noteq> []" "userEmail \<noteq> []"
    and ev: "event_findUnique eventId (prisma w) = Some ev"
    and u: "user_findUnique userEmail (prisma w) = None"
    and fresh: "cuid \<notin> set (map user_id (user_table (prisma w)))"
    and new: "u = \<lparr> user_id = cuid, user_name = split_at_0 userEmail, user_email = userEmail \<rparr>"
    and s2: "s2 = (prisma w)\<lparr> user_table := user_table (prisma w) @ [u],
                             UserEvents := List.insert (eventId, cuid) (UserEvents (prisma w)) \<rparr>"
  shows "joinEvent cuid eventId userEmail w =
     (Inr (ev\<lparr> attendees := attendees_of s2 eventId \<rparr>),
      \<lparr> prisma = s2,
        io = io w @
          [(To_room (''event-'' @ eventId),
            userJoined \<lparr> payload_eventId = eventId, payload_user = u,
              payload_attendees = attendees_of s2 eventId \<rparr>),
           (To_all, eventUpdated eventId (attendees_of s2 eventId))] \<rparr>)"
proof -
  from ev obtain e where e: "find (\<lambda>e. event_id e = eventId) (event_table (prisma w)) = Some e"
    "ev = include_attendees (prisma w) e" "event_id e = eventId"
    by (auto dest: event_findUnique_Some)
  have nl: "\<not> list_ex (\<lambda>x. user_email x = userEmail) (attendees ev)"
    using u e by (auto simp: list_ex_iff user_findUnique_None dest!: attendee_in_table)
  have c: "user_create cuid userEmail (split_at_0 userEmail) (prisma w) =
      (Some u, (prisma w)\<lparr> user_table := user_table (prisma w) @ [u] \<rparr>)"
    using u fresh new by (simp add: user_create_fresh user_findUnique_None)
  show ?thesis
    using assms(1,2) ev u nl e c new s2
    by (simp add: joinEvent_def event_update_connect_def Let_def include_attendees_def)
qed

section \<open>The runs of leaveEvent\<close>

lemma leaveEvent_invalid:
  "eventId = [] \<or> userEmail = [] \<Longrightarrow>
   leaveEvent eventId userEmail w = (Inl (Error ''Event ID and user email are required''), w)"
  by (simp add: leaveEvent_def)

lemma leaveEvent_no_event:
  "eventId \<noteq> [] \<Longrightarrow> userEmail \<noteq> [] \<Longrightarrow> event_findUnique eventId (prisma w) = None \<Longrightarrow>
   leaveEvent eventId userEmail w = (Inl (Error ''Event not found''), w)"
  by (simp add: leaveEvent_def)

lemma leaveEvent_no_user:
  "eventId \<noteq> [] \<Longrightarrow> userEmail \<noteq> [] \<Longrightarrow> event_findUnique eventId (prisma w) = Some ev \<Longrightarrow>
   user_findUnique userEmail (prisma w) = None \<Longrightarrow>
   leaveEvent eventId userEmail w = (Inl (Error ''User not found''), w)"
  by (simp add: leaveEvent_def)

lemma leaveEvent_not_member:
  "eventId \<noteq> [] \<Longrightarrow> userEmail \<noteq> [] \<Longrightarrow> event_findUnique eventId (prisma w) = Some ev \<Longrightarrow>
   user_findUnique userEmail (prisma w) = Some u \<Longrightarrow>
   \<not> (\<exists>a \<in> set (attendees ev). user_email a = userEmail) \<Longrightarrow>
   leaveEvent eventId userEmail w = (Inr ev, w)"
  by (simp add: leaveEvent_def list_ex_iff)

lemma leaveEvent_member:
  assumes "eventId \<noteq> []" "userEmail \<noteq> []"
    and ev: "event_findUnique eventId (prisma w) = Some ev"
    and u: "user_findUnique userEmail (prisma w) = Some u"
    and a: "\<exists>a \<in> set (attendees ev). user_email a = userEmail"
    and s2: "s2 = (prisma w)\<lparr> UserEvents := removeAll (eventId, user_id u) (UserEvents (prisma w)) \<rparr>"
  shows "leaveEvent eventId userEmail w =
     (Inr (ev\<lparr> attendees := attendees_of s2 eventId \<rparr>),
      \<lparr> prisma = s2,
        io = io w @
          [(To_room (''event-'' @ eventId),
            userLeft \<lparr> payload_eventId = eventId, payload_user = u,
              payload_attendees = attendees_of s2 eventId \<rparr>),
           (To_all, eventUpdated eventId (attendees_of s2 eventId))] \<rparr>)"
proof -
  from ev obtain e where e: "find (\<lambda>e. event_id e = eventId) (event_table (prisma w)) = Some e"
    "ev = include_attendees (prisma w) e" "event_id e = eventId"
    by (auto dest: event_findUnique_Some)
  have nl: "list_ex (\<lambda>x. user_email x = userEmail) (attendees ev)"
    using a by (simp add: list_ex_iff)
  show ?thesis
    using assms(1,2) ev u nl e s2
    by (simp add: leaveEvent_def event_update_disconnect_def Let_def include_attendees_def)
qed

section \<open>Consequences of well-formedness\<close>

lemma wf_event_id_nonempty:
  "wf_store s \<Longrightarrow> event_findUnique eid s = Some ev \<Longrightarrow> eid \<noteq> []"
  by (auto simp: wf_store_def list_all_iff dest!: event_findUnique_Some)

lemma wf_user_email_nonempty:
  "wf_store s \<Longrightarrow> u \<in> set (user_table s) \<Longrightarrow> user_email u \<noteq> []"
  by (auto simp: wf_store_def list_all_iff)

lemma wf_edge_user:
  "wf_store s \<Longrightarrow> (eid, uid) \<in> set (UserEvents s) \<Longrightarrow> uid \<in> set (map user_id (user_table s))"
  by (auto simp: wf_store_def list_all_iff)

lemma event_findUnique_same_events:
  assumes "event_findUnique eid s = Some ev" "event_table s' = event_table s"
  shows "event_findUnique eid s' = Some (ev\<lparr> attendees := attendees_of s' eid \<rparr>)"
proof -
  from assms(1) obtain e where e: "find (\<lambda>e. event_id e = eid) (event_table s) = Some e"
    "ev = include_attendees s e" "event_id e = eid"
    by (auto dest: event_findUnique_Some)
  then show ?thesis
    using assms(2) by (simp add: event_findUnique_def include_attendees_def)
qed

lemma joinEvent_twice:
  assumes v: "eventId \<noteq> []" "userEmail \<noteq> []"
    and ev: "event_findUnique eventId (prisma w) = Some ev"
    and fresh: "cuid \<notin> set (map user_id (user_table (prisma w)))"
  shows "\<exists>ev1 w1. joinEvent cuid eventId userEmail w = (Inr ev1, w1) \<and>
            joinEvent cuid' eventId userEmail w1 = (Inr ev1, w1)"
proof (cases "\<exists>a \<in> set (attendees ev). user_email a = userEmail")
  case True
  then obtain a where "a \<in> set (attendees ev)" "user_email a = userEmail" by auto
  then have "joinEvent c eventId userEmail w = (Inr ev, w)" for c
    using v ev by (rule joinEvent_already [rotated 3])
  then show ?thesis by blast
next
  case False
  show ?thesis
  proof (cases "user_findUnique userEmail (prisma w)")
    case (Some u)
    define s2 where "s2 = (prisma w)\<lparr> UserEvents := List.insert (eventId, user_id u) (UserEvents (prisma w)) \<rparr>"
    define ev1 where "ev1 = ev\<lparr> attendees := attendees_of s2 eventId \<rparr>"
    define w1 where "w1 = \<lparr> prisma = s2,
        io = io w @
          [(To_room (''event-'' @ eventId),
            userJoined \<lparr> payload_eventId = eventId, payload_user = u,
              payload_attendees = attendees_of s2 eventId \<rparr>),
           (To_all, eventUpdated eventId (attendees_of s2 eventId))] \<rparr>"
    have j1: "joinEvent cuid eventId userEmail w = (Inr ev1, w1)"
      unfolding ev1_def w1_def by (rule joinEvent_existing_user [OF v ev False Some s2_def])
    have e1: "event_findUnique eventId (prisma w1) = Some ev1"
      unfolding ev1_def w1_def using event_findUnique_same_events [OF ev, of s2]
      by (simp add: s2_def)
    have "u \<in> set (attendees ev1)" "user_email u = userEmail"
      using user_findUnique_Some [OF Some] by (auto simp: ev1_def s2_def attendees_of_def)
    then have "joinEvent cuid' eventId userEmail w1 = (Inr ev1, w1)"
      using v e1 by (rule joinEvent_already [rotated 3])
    with j1 show ?thesis by blast
  next
    case None
    define u where "u = \<lparr> user_id = cuid, user_name = split_at_0 userEmail, user_email = userEmail \<rparr>"
    define s2 where "s2 = (prisma w)\<lparr> user_table := user_table (prisma w) @ [u],
                             UserEvents := List.insert (eventId, cuid) (UserEvents (prisma w)) \<rparr>"
    define ev1 where "ev1 = ev\<lparr> attendees := attendees_of s2 eventId \<rparr>"
    define w1 where "w1 = \<lparr> prisma = s2,
        io = io w @
          [(To_room (''event-'' @ eventId),
            userJoined \<lparr> payload_eventId = eventId, payload_user = u,
              payload_attendees = attendees_of s2 eventId \<rparr>),
           (To_all, eventUpdated eventId (attendees_of s2 eventId))] \<rparr>"
    have j1: "joinEvent cuid eventId userEmail w = (Inr ev1, w1)"
      unfolding ev1_def w1_def by (rule joinEvent_new_user [OF v ev None fresh u_def s2_def])
    have e1: "event_findUnique eventId (prisma w1) = Some ev1"
      unfolding ev1_def w1_def using event_findUnique_same_events [OF ev, of s2]
      by (simp add: s2_def)
    have "u \<in> set (attendees ev1)" "user_email u = userEmail"
      by (auto simp: ev1_def s2_def attendees_of_def u_def)
    then have "joinEvent cuid' eventId userEmail w1 = (Inr ev1, w1)"
      using v e1 by (rule joinEvent_already [rotated 3])
    with j1 show ?thesis by blast
  qed
qed

lemmas seed_defs = seeded_def seed_def alice_def bob_def charlie_def
  tech_meetup_def music_festival_def food_fair_def

lemmas store_defs = event_findUnique_def user_findUnique_def include_attendees_def
  attendees_of_def wf_store_def

section \<open>Joining\<close>

text \<open>
  C1. joinEvent is idempotent. In a well-formed store, for every event and every email
  of one of its attendees, joinEvent returns the event as it is and gives back the world
  it got: no row is written and nothing is emitted. And for every non-empty event id of
  an existing event and every non-empty email, with an unused id for a row the first
  call may create, the first call succeeds and the second returns the same event and
  leaves the world of the first call as it is, so the attendee set after two calls is
  the attendee set after one.
\<close>

theorem joinEvent_idempotent:
  "(wf_store (prisma w) \<and> event_findUnique eventId (prisma w) = Some ev \<and>
      (\<exists>a \<in> set (attendees ev). user_email a = userEmail)
      \<longrightarrow> joinEvent cuid eventId userEmail w = (Inr ev, w)) \<and>
   (eventId \<noteq> [] \<and> userEmail \<noteq> [] \<and> event_findUnique eventId (prisma w) = Some ev \<and>
      cuid \<notin> set (map user_id (user_table (prisma w)))
      \<longrightarrow> (\<exists>ev1 w1. joinEvent cuid eventId userEmail w = (Inr ev1, w1) \<and>
             joinEvent cuid' eventId userEmail w1 = (Inr ev1, w1) \<and>
             set (attendees_of (prisma (snd (joinEvent cuid' eventId userEmail w1))) eventId) =
               set (attendees_of (prisma w1) eventId)))"
proof (intro conjI impI)
  assume h: "wf_store (prisma w) \<and> event_findUnique eventId (prisma w) = Some ev \<and>
      (\<exists>a \<in> set (attendees ev). user_email a = userEmail)"
  then obtain a where a: "a \<in> set (attendees ev)" "user_email a = userEmail" by auto
  from h have e: "eventId \<noteq> []" by (auto dest: wf_event_id_nonempty)
  from h obtain e0 where "ev = include_attendees (prisma w) e0"
    by (auto dest: event_findUnique_Some)
  with a have "a \<in> set (user_table (prisma w))" by (auto dest: attendee_in_table)
  with h a have "userEmail \<noteq> []" by (auto dest: wf_user_email_nonempty)
  with e h a show "joinEvent cuid eventId userEmail w = (Inr ev, w)"
    by (auto intro: joinEvent_already)
next
  assume h: "eventId \<noteq> [] \<and> userEmail \<noteq> [] \<and> event_findUnique eventId (prisma w) = Some ev \<and>
      cuid \<notin> set (map user_id (user_table (prisma w)))"
  then obtain ev1 w1 where "joinEvent cuid eventId userEmail w = (Inr ev1, w1)"
    "joinEvent cuid' eventId userEmail w1 = (Inr ev1, w1)"
    using joinEvent_twice [of eventId userEmail w ev cuid cuid'] by auto
  then show "\<exists>ev1 w1. joinEvent cuid eventId userEmail w = (Inr ev1, w1) \<and>
             joinEvent cuid' eventId userEmail w1 = (Inr ev1, w1) \<and>
             set (attendees_of (prisma (snd (joinEvent cuid' eventId userEmail w1))) eventId) =
               set (attendees_of (prisma w1) eventId)"
    by auto
qed


theorem joinEvent_idempotent_witness:
  "wf_store (prisma seeded) \<and>
   event_findUnique ''e1'' (prisma seeded) = Some (include_attendees seed tech_meetup) \<and>
   (\<exists>a \<in> set (attendees (include_attendees seed tech_meetup)). user_email a = ''alice@example.com'') \<and>
   joinEvent ''u4'' ''e1'' ''alice@example.com'' seeded = (Inr (include_attendees seed tech_meetup), seeded) \<and>
   ''e3'' \<noteq> [] \<and> ''dan@example.com'' \<noteq> [] \<and>
   event_findUnique ''e3'' (prisma seeded) = Some (include_attendees seed food_fair) \<and>
   ''u4'' \<notin> set (map user_id (user_table (prisma seeded))) \<and>
   (\<exists>ev1 w1. joinEvent ''u4'' ''e3'' ''dan@example.com'' seeded = (Inr ev1, w1) \<and>
      joinEvent ''u5'' ''e3'' ''dan@example.com'' w1 = (Inr ev1, w1) \<and>
      set (attendees_of (prisma (snd (joinEvent ''u5'' ''e3'' ''dan@example.com'' w1))) ''e3'') =
        set (attendees_of (prisma w1) ''e3''))"
proof -
  have h1: "wf_store (prisma seeded)"
    by (simp add: seed_defs store_defs)
  have h2: "event_findUnique ''e1'' (prisma seeded) = Some (include_attendees seed tech_meetup)"
    by (simp add: seed_defs store_defs)
  have h3: "\<exists>a \<in> set (attendees (include_attendees seed tech_meetup)). user_email a = ''alice@example.com''"
    by (simp add: seed_defs store_defs)
  have h4: "event_findUnique ''e3'' (prisma seeded) = Some (include_attendees seed food_fair)"
    by (simp add: seed_defs store_defs)
  have h5: "''u4'' \<notin> set (map user_id (user_table (prisma seeded)))"
    by (simp add: seed_defs)
  show ?thesis
    using h1 h2 h3 h4 h5
      joinEvent_idempotent [of seeded "''e1''" "include_attendees seed tech_meetup"
        "''alice@example.com''" "''u4''" "''u5''"]
      joinEvent_idempotent [of seeded "''e3''" "include_attendees seed food_fair"
        "''dan@example.com''" "''u4''" "''u5''"]
    by simp
qed


section \<open>Joining, then leaving\<close>

lemma find_snoc:
  "find P (xs @ [x]) = (case find P xs of None \<Rightarrow> (if P x then Some x else None) | Some y \<Rightarrow> Some y)"
  by (induction xs) auto

lemma user_findUnique_created:
  assumes "user_findUnique em s = None"
  shows "user_findUnique em (s\<lparr> user_table := user_table s @ [\<lparr> user_id = c, user_name = n, user_email = em \<rparr>],
                               UserEvents := es \<rparr>) =
         Some \<lparr> user_id = c, user_name = n, user_email = em \<rparr>"
  using assms by (simp add: user_findUnique_def find_snoc)

lemma not_attendee_no_edge:
  assumes "u \<in> set (user_table s)" "\<not> (\<exists>a \<in> set (attendees_of s eid). user_email a = user_email u)"
  shows "(eid, user_id u) \<notin> set (UserEvents s)"
  using assms by (auto simp: attendees_of_def)

lemma fresh_no_edge:
  assumes "wf_store s" "c \<notin> set (map user_id (user_table s))"
  shows "(eid, c) \<notin> set (UserEvents s)"
  using assms wf_edge_user by blast

lemma remove_inserted:
  "x \<notin> set xs \<Longrightarrow> removeAll x (List.insert x xs) = xs"
  by (simp add: List.insert_def)

lemma joinEvent_then_leaveEvent:
  assumes wf: "wf_store (prisma w)" and em: "userEmail \<noteq> []"
    and ev: "event_findUnique eventId (prisma w) = Some ev"
    and na: "\<not> (\<exists>a \<in> set (attendees ev). user_email a = userEmail)"
    and fresh: "cuid \<notin> set (map user_id (user_table (prisma w)))"
  shows "\<exists>ev1 w1 ev2 w2.
           joinEvent cuid eventId userEmail w = (Inr ev1, w1) \<and>
           leaveEvent eventId userEmail w1 = (Inr ev2, w2) \<and>
           attendees ev2 = attendees ev \<and>
           attendees_of (prisma w2) eventId = attendees_of (prisma w) eventId \<and>
           UserEvents (prisma w2) = UserEvents (prisma w)"
proof -
  have eid: "eventId \<noteq> []" using wf ev by (rule wf_event_id_nonempty)
  from ev obtain e where e: "ev = include_attendees (prisma w) e" "event_id e = eventId"
    by (auto dest: event_findUnique_Some)
  have att: "attendees ev = attendees_of (prisma w) eventId" using e by simp
  show ?thesis
  proof (cases "user_findUnique userEmail (prisma w)")
    case (Some u)
    define s2 where "s2 = (prisma w)\<lparr> UserEvents := List.insert (eventId, user_id u) (UserEvents (prisma w)) \<rparr>"
    define ev1 where "ev1 = ev\<lparr> attendees := attendees_of s2 eventId \<rparr>"
    define w1 where "w1 = \<lparr> prisma = s2,
        io = io w @
          [(To_room (''event-'' @ eventId),
            userJoined \<lparr> payload_eventId = eventId, payload_user = u,
              payload_attendees = attendees_of s2 eventId \<rparr>),
           (To_all, eventUpdated eventId (attendees_of s2 eventId))] \<rparr>"
    have j1: "joinEvent cuid eventId userEmail w = (Inr ev1, w1)"
      unfolding ev1_def w1_def by (rule joinEvent_existing_user [OF eid em ev na Some s2_def])
    have u: "u \<in> set (user_table (prisma w))" "user_email u = userEmail"
      using user_findUnique_Some [OF Some] by auto
    have noedge: "(eventId, user_id u) \<notin> set (UserEvents (prisma w))"
      using u na att by (intro not_attendee_no_edge) auto
    have e1: "event_findUnique eventId (prisma w1) = Some ev1"
      unfolding ev1_def w1_def using event_findUnique_same_events [OF ev, of s2]
      by (simp add: s2_def)
    have u1: "user_findUnique userEmail (prisma w1) = Some u"
      using Some by (simp add: w1_def s2_def user_findUnique_def)
    have m1: "\<exists>a \<in> set (attendees ev1). user_email a = userEmail"
      using u by (auto simp: ev1_def s2_def attendees_of_def)
    define s3 where "s3 = (prisma w1)\<lparr> UserEvents := removeAll (eventId, user_id u) (UserEvents (prisma w1)) \<rparr>"
    have s3: "s3 = prisma w"
      using noedge by (simp add: s3_def w1_def s2_def remove_inserted)
    note l = leaveEvent_member [OF eid em e1 u1 m1 s3_def]
    show ?thesis
      using j1 l s3 att by (auto simp: ev1_def)
  next
    case None
    define u where "u = \<lparr> user_id = cuid, user_name = split_at_0 userEmail, user_email = userEmail \<rparr>"
    define s2 where "s2 = (prisma w)\<lparr> user_table := user_table (prisma w) @ [u],
                             UserEvents := List.insert (eventId, cuid) (UserEvents (prisma w)) \<rparr>"
    define ev1 where "ev1 = ev\<lparr> attendees := attendees_of s2 eventId \<rparr>"
    define w1 where "w1 = \<lparr> prisma = s2,
        io = io w @
          [(To_room (''event-'' @ eventId),
            userJoined \<lparr> payload_eventId = eventId, payload_user = u,
              payload_attendees = attendees_of s2 eventId \<rparr>),
           (To_all, eventUpdated eventId (attendees_of s2 eventId))] \<rparr>"
    have j1: "joinEvent cuid eventId userEmail w = (Inr ev1, w1)"
      unfolding ev1_def w1_def by (rule joinEvent_new_user [OF eid em ev None fresh u_def s2_def])
    have noedge: "(eventId, cuid) \<notin> set (UserEvents (prisma w))"
      using wf fresh by (rule fresh_no_edge)
    have e1: "event_findUnique eventId (prisma w1) = Some ev1"
      unfolding ev1_def w1_def using event_findUnique_same_events [OF ev, of s2]
      by (simp add: s2_def)
    have u1: "user_findUnique userEmail (prisma w1) = Some u"
      unfolding w1_def s2_def u_def using user_findUnique_created [OF None] by simp
    have m1: "\<exists>a \<in> set (attendees ev1). user_email a = userEmail"
      by (auto simp: ev1_def s2_def attendees_of_def u_def)
    define s3 where "s3 = (prisma w1)\<lparr> UserEvents := removeAll (eventId, user_id u) (UserEvents (prisma w1)) \<rparr>"
    have s3: "s3 = (prisma w)\<lparr> user_table := user_table (prisma w) @ [u] \<rparr>"
      using noedge by (simp add: s3_def w1_def s2_def remove_inserted u_def)
    have a3: "attendees_of s3 eventId = attendees_of (prisma w) eventId"
      using noedge by (simp add: s3 attendees_of_def u_def)
    note l = leaveEvent_member [OF eid em e1 u1 m1 s3_def]
    show ?thesis
      using j1 l a3 att by (auto simp: ev1_def s3)
  qed
qed

lemmas resolver_defs = joinEvent_def leaveEvent_def me_def user_create_def
  event_update_connect_def event_update_disconnect_def split_at_0_def Let_def

text \<open>
  C2, as amended. In a well-formed store, for an existing event, a non-empty email that
  is not the email of one of the event's attendees, and an unused id for the row the
  join may create: joinEvent succeeds, leaveEvent on the same pair succeeds after it,
  and the event's attendee set, as returned and as stored, is the one before the join;
  the join table is the one before the join. (When the email is already an attendee's,
  the join writes nothing and the leave removes the attendee: see the counterexample.)
\<close>

theorem joinEvent_leaveEvent_round_trip:
  assumes "wf_store (prisma w)" and "userEmail \<noteq> []"
    and "event_findUnique eventId (prisma w) = Some ev"
    and "\<not> (\<exists>a \<in> set (attendees ev). user_email a = userEmail)"
    and "cuid \<notin> set (map user_id (user_table (prisma w)))"
  shows "\<exists>ev1 w1 ev2 w2.
           joinEvent cuid eventId userEmail w = (Inr ev1, w1) \<and>
           leaveEvent eventId userEmail w1 = (Inr ev2, w2) \<and>
           set (attendees ev2) = set (attendees ev) \<and>
           set (attendees_of (prisma w2) eventId) = set (attendees_of (prisma w) eventId) \<and>
           UserEvents (prisma w2) = UserEvents (prisma w)"
  using joinEvent_then_leaveEvent [OF assms, of ] by metis

theorem joinEvent_leaveEvent_round_trip_counterexample:
  "wf_store (prisma seeded) \<and> ''e1'' \<noteq> [] \<and> ''alice@example.com'' \<noteq> [] \<and>
   event_findUnique ''e1'' (prisma seeded) = Some (include_attendees seed tech_meetup) \<and>
   fst (joinEvent ''u4'' ''e1'' ''alice@example.com'' seeded) = Inr (include_attendees seed tech_meetup) \<and>
   set (attendees_of (prisma seeded) ''e1'') = {alice, bob} \<and>
   set (attendees_of (prisma (snd (leaveEvent ''e1'' ''alice@example.com''
          (snd (joinEvent ''u4'' ''e1'' ''alice@example.com'' seeded))))) ''e1'') = {bob} \<and>
   set (attendees_of (prisma (snd (leaveEvent ''e1'' ''alice@example.com''
          (snd (joinEvent ''u4'' ''e1'' ''alice@example.com'' seeded))))) ''e1'')
     \<noteq> set (attendees_of (prisma seeded) ''e1'')"
  by (simp add: seed_defs store_defs resolver_defs)

theorem joinEvent_leaveEvent_round_trip_witness:
  "wf_store (prisma seeded) \<and> ''dan@example.com'' \<noteq> [] \<and>
   event_findUnique ''e3'' (prisma seeded) = Some (include_attendees seed food_fair) \<and>
   \<not> (\<exists>a \<in> set (attendees (include_attendees seed food_fair)). user_email a = ''dan@example.com'') \<and>
   ''u4'' \<notin> set (map user_id (user_table (prisma seeded))) \<and>
   (\<exists>ev1 w1 ev2 w2.
           joinEvent ''u4'' ''e3'' ''dan@example.com'' seeded = (Inr ev1, w1) \<and>
           leaveEvent ''e3'' ''dan@example.com'' w1 = (Inr ev2, w2) \<and>
           set (attendees ev2) = set (attendees (include_attendees seed food_fair)) \<and>
           set (attendees_of (prisma w2) ''e3'') = set (attendees_of (prisma seeded) ''e3'') \<and>
           UserEvents (prisma w2) = UserEvents (prisma seeded))"
proof -
  have h1: "wf_store (prisma seeded)"
    by (simp add: seed_defs store_defs)
  have h2: "event_findUnique ''e3'' (prisma seeded) = Some (include_attendees seed food_fair)"
    by (simp add: seed_defs store_defs)
  have h3: "\<not> (\<exists>a \<in> set (attendees (include_attendees seed food_fair)). user_email a = ''dan@example.com'')"
    by (simp add: seed_defs store_defs)
  have h4: "''u4'' \<notin> set (map user_id (user_table (prisma seeded)))"
    by (simp add: seed_defs)
  have h5: "''dan@example.com'' \<noteq> []" by simp
  show ?thesis
    using h1 h2 h3 h4 joinEvent_leaveEvent_round_trip [OF h1 h5 h2 h3 h4]
    by simp
qed


section \<open>Leaving\<close>

lemma leaveEvent_user_table:
  "user_table (prisma (snd (leaveEvent eventId userEmail w))) = user_table (prisma w)"
  by (auto simp: leaveEvent_def event_update_disconnect_def Let_def
      split: option.splits prod.splits)

text \<open>
  C3. The errors of leaveEvent. With a non-empty event id and a non-empty email:
  when no event has the id, leaveEvent fails with \<open>Event not found\<close> (NotFound);
  when the event exists and no user has the email, it fails with \<open>User not found\<close>
  (UserNotFound). In both cases the world is the one it got. Whatever the inputs,
  leaveEvent leaves the user table as it is: it never creates a user.
\<close>

theorem leaveEvent_errors:
  "(eventId \<noteq> [] \<and> userEmail \<noteq> [] \<and> event_findUnique eventId (prisma w) = None
      \<longrightarrow> leaveEvent eventId userEmail w = (Inl (Error ''Event not found''), w)) \<and>
   (eventId \<noteq> [] \<and> userEmail \<noteq> [] \<and> event_findUnique eventId (prisma w) \<noteq> None \<and>
      user_findUnique userEmail (prisma w) = None
      \<longrightarrow> leaveEvent eventId userEmail w = (Inl (Error ''User not found''), w)) \<and>
   user_table (prisma (snd (leaveEvent eventId userEmail w))) = user_table (prisma w)"
  by (auto simp: leaveEvent_no_event leaveEvent_no_user leaveEvent_user_table)

theorem leaveEvent_errors_witness:
  "''bad-id'' \<noteq> [] \<and> ''a@x.com'' \<noteq> [] \<and> event_findUnique ''bad-id'' (prisma seeded) = None \<and>
   leaveEvent ''bad-id'' ''a@x.com'' seeded = (Inl (Error ''Event not found''), seeded) \<and>
   ''e1'' \<noteq> [] \<and> ''nonexistent@x.com'' \<noteq> [] \<and> event_findUnique ''e1'' (prisma seeded) \<noteq> None \<and>
   user_findUnique ''nonexistent@x.com'' (prisma seeded) = None \<and>
   leaveEvent ''e1'' ''nonexistent@x.com'' seeded = (Inl (Error ''User not found''), seeded) \<and>
   user_table (prisma (snd (leaveEvent ''e1'' ''alice@example.com'' seeded))) = user_table (prisma seeded)"
proof -
  have h1: "event_findUnique ''bad-id'' (prisma seeded) = None"
    by (simp add: seed_defs store_defs)
  have h2: "event_findUnique ''e1'' (prisma seeded) \<noteq> None"
    by (simp add: seed_defs store_defs)
  have h3: "user_findUnique ''nonexistent@x.com'' (prisma seeded) = None"
    by (simp add: seed_defs store_defs)
  show ?thesis
    using h1 h2 h3
      leaveEvent_errors [of "''bad-id''" "''a@x.com''" seeded]
      leaveEvent_errors [of "''e1''" "''nonexistent@x.com''" seeded]
      leaveEvent_errors [of "''e1''" "''alice@example.com''" seeded]
    by simp
qed

text \<open>
  C4. Leaving an event one has not joined. In a well-formed store, for every existing
  event and every email of a stored user who is not one of its attendees, leaveEvent
  succeeds, returns the event as it is and gives back the world it got: no row is
  written and nothing is emitted. When instead no user has the (non-empty) email, the
  outcome is the failure \<open>User not found\<close>.
\<close>

theorem leaveEvent_non_member:
  "(wf_store (prisma w) \<and> event_findUnique eventId (prisma w) = Some ev \<and>
      user_findUnique userEmail (prisma w) = Some u \<and>
      \<not> (\<exists>a \<in> set (attendees ev). user_email a = userEmail)
      \<longrightarrow> leaveEvent eventId userEmail w = (Inr ev, w)) \<and>
   (wf_store (prisma w) \<and> event_findUnique eventId (prisma w) = Some ev \<and> userEmail \<noteq> [] \<and>
      user_findUnique userEmail (prisma w) = None
      \<longrightarrow> leaveEvent eventId userEmail w = (Inl (Error ''User not found''), w))"
proof (intro conjI impI)
  assume h: "wf_store (prisma w) \<and> event_findUnique eventId (prisma w) = Some ev \<and>
      user_findUnique userEmail (prisma w) = Some u \<and>
      \<not> (\<exists>a \<in> set (attendees ev). user_email a = userEmail)"
  then have e: "eventId \<noteq> []" by (auto dest: wf_event_id_nonempty)
  from h have "u \<in> set (user_table (prisma w))" "user_email u = userEmail"
    by (auto dest: user_findUnique_Some)
  with h have "userEmail \<noteq> []" by (auto dest: wf_user_email_nonempty)
  with e h show "leaveEvent eventId userEmail w = (Inr ev, w)"
    by (auto intro: leaveEvent_not_member)
next
  assume h: "wf_store (prisma w) \<and> event_findUnique eventId (prisma w) = Some ev \<and> userEmail \<noteq> [] \<and>
      user_findUnique userEmail (prisma w) = None"
  then have e: "eventId \<noteq> []" by (auto dest: wf_event_id_nonempty)
  with h show "leaveEvent eventId userEmail w = (Inl (Error ''User not found''), w)"
    by (auto intro: leaveEvent_no_user)
qed

theorem leaveEvent_non_member_witness:
  "wf_store (prisma seeded) \<and>
   event_findUnique ''e3'' (prisma seeded) = Some (include_attendees seed food_fair) \<and>
   user_findUnique ''charlie@example.com'' (prisma seeded) = Some charlie \<and>
   \<not> (\<exists>a \<in> set (attendees (include_attendees seed food_fair)). user_email a = ''charlie@example.com'') \<and>
   leaveEvent ''e3'' ''charlie@example.com'' seeded = (Inr (include_attendees seed food_fair), seeded) \<and>
   ''nonexistent@x.com'' \<noteq> [] \<and>
   user_findUnique ''nonexistent@x.com'' (prisma seeded) = None \<and>
   leaveEvent ''e3'' ''nonexistent@x.com'' seeded = (Inl (Error ''User not found''), seeded)"
proof -
  have h1: "wf_store (prisma seeded)"
    by (simp add: seed_defs store_defs)
  have h2: "event_findUnique ''e3'' (prisma seeded) = Some (include_attendees seed food_fair)"
    by (simp add: seed_defs store_defs)
  have h3: "user_findUnique ''charlie@example.com'' (prisma seeded) = Some charlie"
    by (simp add: seed_defs store_defs)
  have h4: "\<not> (\<exists>a \<in> set (attendees (include_attendees seed food_fair)). user_email a = ''charlie@example.com'')"
    by (simp add: seed_defs store_defs)
  have h5: "user_findUnique ''nonexistent@x.com'' (prisma seeded) = None"
    by (simp add: seed_defs store_defs)
  show ?thesis
    using h1 h2 h3 h4 h5
      leaveEvent_non_member [of seeded "''e3''" "include_attendees seed food_fair"
        "''charlie@example.com''" charlie]
      leaveEvent_non_member [of seeded "''e3''" "include_attendees seed food_fair"
        "''nonexistent@x.com''" charlie]
    by simp
qed

section \<open>Failures\<close>

lemma leaveEvent_error_unchanged:
  "fst (leaveEvent e u w) = Inl err \<Longrightarrow> snd (leaveEvent e u w) = w"
  by (auto simp: leaveEvent_def event_update_disconnect_def event_findUnique_def Let_def
      split: if_splits option.splits prod.splits)

lemma joinEvent_error_unchanged:
  "fst (joinEvent c e u w) = Inl err \<Longrightarrow> snd (joinEvent c e u w) = w"
  by (auto simp: joinEvent_def event_update_connect_def event_findUnique_def Let_def user_findUnique_def
      split: if_splits option.splits prod.splits dest!: user_create_None user_create_Some find_user_email)

text \<open>
  C10. A failure writes nothing. Whenever joinEvent or leaveEvent fails, with whatever
  error, the world after the call is the world before it: the store is unchanged and
  nothing was emitted. In particular joinEvent with the id of no event and an email of
  no user fails with \<open>Event not found\<close> and still no user has the email afterwards:
  the event is looked up before the user is found or created.
\<close>

theorem errors_write_nothing:
  "(\<forall>err. fst (joinEvent cuid eventId userEmail w) = Inl err
       \<longrightarrow> snd (joinEvent cuid eventId userEmail w) = w) \<and>
   (\<forall>err. fst (leaveEvent eventId userEmail w) = Inl err
       \<longrightarrow> snd (leaveEvent eventId userEmail w) = w) \<and>
   (eventId \<noteq> [] \<and> userEmail \<noteq> [] \<and> event_findUnique eventId (prisma w) = None \<and>
      user_findUnique userEmail (prisma w) = None
      \<longrightarrow> joinEvent cuid eventId userEmail w = (Inl (Error ''Event not found''), w) \<and>
          user_findUnique userEmail (prisma (snd (joinEvent cuid eventId userEmail w))) = None)"
  by (auto simp: joinEvent_no_event dest: joinEvent_error_unchanged leaveEvent_error_unchanged)

theorem errors_write_nothing_witness:
  "fst (joinEvent ''u4'' [] ''a@x.com'' seeded) = Inl (Error ''Event ID and user email are required'') \<and>
   snd (joinEvent ''u4'' [] ''a@x.com'' seeded) = seeded \<and>
   fst (leaveEvent ''e1'' ''nonexistent@x.com'' seeded) = Inl (Error ''User not found'') \<and>
   snd (leaveEvent ''e1'' ''nonexistent@x.com'' seeded) = seeded \<and>
   ''bad-id'' \<noteq> [] \<and> ''a@x.com'' \<noteq> [] \<and> event_findUnique ''bad-id'' (prisma seeded) = None \<and>
   user_findUnique ''a@x.com'' (prisma seeded) = None \<and>
   joinEvent ''u4'' ''bad-id'' ''a@x.com'' seeded = (Inl (Error ''Event not found''), seeded) \<and>
   user_findUnique ''a@x.com'' (prisma (snd (joinEvent ''u4'' ''bad-id'' ''a@x.com'' seeded))) = None"
proof -
  have h1: "fst (joinEvent ''u4'' [] ''a@x.com'' seeded) = Inl (Error ''Event ID and user email are required'')"
    by (simp add: joinEvent_def)
  have h2: "fst (leaveEvent ''e1'' ''nonexistent@x.com'' seeded) = Inl (Error ''User not found'')"
    by (simp add: seed_defs store_defs resolver_defs)
  have h3: "event_findUnique ''bad-id'' (prisma seeded) = None"
    by (simp add: seed_defs store_defs)
  have h4: "user_findUnique ''a@x.com'' (prisma seeded) = None"
    by (simp add: seed_defs store_defs)
  show ?thesis
    using h1 h2 h3 h4
      errors_write_nothing [of "''u4''" "[]" "''a@x.com''" seeded]
      errors_write_nothing [of "''u4''" "''e1''" "''nonexistent@x.com''" seeded]
      errors_write_nothing [of "''u4''" "''bad-id''" "''a@x.com''" seeded]
    by simp
qed


section \<open>Broadcasts of joinEvent\<close>

text \<open>What a successful joinEvent did.\<close>

lemma joinEvent_success:
  assumes j: "joinEvent cuid eventId userEmail w = (Inr ev', w')"
    and ev: "event_findUnique eventId (prisma w) = Some ev"
  shows "((\<exists>a \<in> set (attendees ev). user_email a = userEmail) \<and> ev' = ev \<and> w' = w) \<or>
         (\<not> (\<exists>a \<in> set (attendees ev). user_email a = userEmail) \<and>
          (\<exists>u. user_findUnique userEmail (prisma w') = Some u \<and>
               u \<in> set (attendees_of (prisma w') eventId) \<and>
               ev' = ev\<lparr> attendees := attendees_of (prisma w') eventId \<rparr> \<and>
               io w' = io w @
                 [(To_room (''event-'' @ eventId),
                   userJoined \<lparr> payload_eventId = eventId, payload_user = u,
                     payload_attendees = attendees_of (prisma w') eventId \<rparr>),
                  (To_all, eventUpdated eventId (attendees_of (prisma w') eventId))]))"
proof -
  have v: "eventId \<noteq> []" "userEmail \<noteq> []"
    using j by (auto simp: joinEvent_def split: if_splits)
  show ?thesis
  proof (cases "\<exists>a \<in> set (attendees ev). user_email a = userEmail")
    case True
    then obtain a where "a \<in> set (attendees ev)" "user_email a = userEmail" by auto
    then have "joinEvent cuid eventId userEmail w = (Inr ev, w)"
      using v ev by (rule joinEvent_already [rotated 3])
    with j True show ?thesis by simp
  next
    case False
    show ?thesis
    proof (cases "user_findUnique userEmail (prisma w)")
      case (Some u)
      define s2 where "s2 = (prisma w)\<lparr> UserEvents := List.insert (eventId, user_id u) (UserEvents (prisma w)) \<rparr>"
      note r = joinEvent_existing_user [OF v ev False Some s2_def, of cuid]
      have u1: "user_findUnique userEmail s2 = Some u"
        using Some by (simp add: s2_def user_findUnique_def)
      have u2: "u \<in> set (attendees_of s2 eventId)"
        using user_findUnique_Some [OF Some] by (simp add: s2_def attendees_of_def)
      show ?thesis
        using j r False u1 u2 by auto
    next
      case None
      have fresh: "cuid \<notin> set (map user_id (user_table (prisma w)))"
        using j v ev None
        by (auto simp: joinEvent_def user_create_def split: if_splits)
      define u where "u = \<lparr> user_id = cuid, user_name = split_at_0 userEmail, user_email = userEmail \<rparr>"
      define s2 where "s2 = (prisma w)\<lparr> user_table := user_table (prisma w) @ [u],
                             UserEvents := List.insert (eventId, cuid) (UserEvents (prisma w)) \<rparr>"
      note r = joinEvent_new_user [OF v ev None fresh u_def s2_def]
      have u1: "user_findUnique userEmail s2 = Some u"
        unfolding s2_def u_def using user_findUnique_created [OF None] by simp
      have u2: "u \<in> set (attendees_of s2 eventId)"
        by (simp add: s2_def attendees_of_def u_def)
      show ?thesis
        using j r False u1 u2 by auto
    qed
  qed
qed

text \<open>
  C5. What joinEvent emits. When joinEvent succeeds for an email that was not an
  attendee's, the messages emitted so far grow by exactly two: one \<open>userJoined\<close> to
  the room of the event and, after it, one \<open>eventUpdated\<close> to every client, both
  carrying the attendee list of the event after the join (the list the call returns,
  which is the stored one and holds the joining user). When the email was already an
  attendee's, nothing is emitted.
\<close>

theorem joinEvent_broadcast:
  "joinEvent cuid eventId userEmail w = (Inr ev', w') \<and>
   event_findUnique eventId (prisma w) = Some ev \<longrightarrow>
     (if \<exists>a \<in> set (attendees ev). user_email a = userEmail
      then io w' = io w
      else attendees ev' = attendees_of (prisma w') eventId \<and>
           (\<exists>u. u \<in> set (attendees ev') \<and> user_email u = userEmail \<and>
              io w' = io w @
                [(To_room (''event-'' @ eventId),
                  userJoined \<lparr> payload_eventId = eventId, payload_user = u,
                    payload_attendees = attendees ev' \<rparr>),
                 (To_all, eventUpdated eventId (attendees ev'))]))"
proof (intro impI)
  assume h: "joinEvent cuid eventId userEmail w = (Inr ev', w') \<and>
   event_findUnique eventId (prisma w) = Some ev"
  then have j: "joinEvent cuid eventId userEmail w = (Inr ev', w')"
    and ev: "event_findUnique eventId (prisma w) = Some ev" by auto
  from joinEvent_success [OF j ev]
  show "if \<exists>a \<in> set (attendees ev). user_email a = userEmail
      then io w' = io w
      else attendees ev' = attendees_of (prisma w') eventId \<and>
           (\<exists>u. u \<in> set (attendees ev') \<and> user_email u = userEmail \<and>
              io w' = io w @
                [(To_room (''event-'' @ eventId),
                  userJoined \<lparr> payload_eventId = eventId, payload_user = u,
                    payload_attendees = attendees ev' \<rparr>),
                 (To_all, eventUpdated eventId (attendees ev'))])"
    by (auto dest: user_findUnique_Some)
qed

theorem joinEvent_broadcast_witness:
  "joinEvent ''u4'' ''e3'' ''a@x.com'' seeded =
     (Inr ((include_attendees seed food_fair)
             \<lparr> attendees := [\<lparr> user_id = ''u4'', user_name = ''a'', user_email = ''a@x.com'' \<rparr>] \<rparr>),
      \<lparr> prisma = seed\<lparr> user_table := [alice, bob, charlie,
                     \<lparr> user_id = ''u4'', user_name = ''a'', user_email = ''a@x.com'' \<rparr>],
                   UserEvents := [(''e3'', ''u4''), (''e1'', ''u1''), (''e1'', ''u2''), (''e2'', ''u1'')] \<rparr>,
        io = [(To_room ''event-e3'',
               userJoined \<lparr> payload_eventId = ''e3'',
                 payload_user = \<lparr> user_id = ''u4'', user_name = ''a'', user_email = ''a@x.com'' \<rparr>,
                 payload_attendees = [\<lparr> user_id = ''u4'', user_name = ''a'', user_email = ''a@x.com'' \<rparr>] \<rparr>),
              (To_all, eventUpdated ''e3''
                 [\<lparr> user_id = ''u4'', user_name = ''a'', user_email = ''a@x.com'' \<rparr>])] \<rparr>) \<and>
   event_findUnique ''e3'' (prisma seeded) = Some (include_attendees seed food_fair) \<and>
   joinEvent ''u5'' ''e1'' ''bob@example.com'' seeded = (Inr (include_attendees seed tech_meetup), seeded) \<and>
   event_findUnique ''e1'' (prisma seeded) = Some (include_attendees seed tech_meetup) \<and>
   io seeded = []"
proof -
  let ?a = "\<lparr> user_id = ''u4'', user_name = ''a'', user_email = ''a@x.com'' \<rparr>"
  let ?w = "\<lparr> prisma = seed\<lparr> user_table := [alice, bob, charlie, ?a],
                   UserEvents := [(''e3'', ''u4''), (''e1'', ''u1''), (''e1'', ''u2''), (''e2'', ''u1'')] \<rparr>,
        io = [(To_room ''event-e3'',
               userJoined \<lparr> payload_eventId = ''e3'', payload_user = ?a, payload_attendees = [?a] \<rparr>),
              (To_all, eventUpdated ''e3'' [?a])] \<rparr>"
  have h1: "joinEvent ''u4'' ''e3'' ''a@x.com'' seeded =
     (Inr ((include_attendees seed food_fair)\<lparr> attendees := [?a] \<rparr>), ?w)"
    by (simp add: seed_defs store_defs resolver_defs)
  have h2: "event_findUnique ''e3'' (prisma seeded) = Some (include_attendees seed food_fair)"
    by (simp add: seed_defs store_defs)
  have h3: "joinEvent ''u5'' ''e1'' ''bob@example.com'' seeded = (Inr (include_attendees seed tech_meetup), seeded)"
    by (simp add: seed_defs store_defs resolver_defs)
  have h4: "event_findUnique ''e1'' (prisma seeded) = Some (include_attendees seed tech_meetup)"
    by (simp add: seed_defs store_defs)
  have h5: "io seeded = []" by (simp add: seeded_def)
  from joinEvent_broadcast [of "''u4''" "''e3''" "''a@x.com''" seeded
      "(include_attendees seed food_fair)\<lparr> attendees := [?a] \<rparr>" ?w "include_attendees seed food_fair"]
    joinEvent_broadcast [of "''u5''" "''e1''" "''bob@example.com''" seeded
      "include_attendees seed tech_meetup" seeded "include_attendees seed tech_meetup"]
  show ?thesis using h1 h2 h3 h4 h5 by simp
qed


section \<open>The query me\<close>

lemma alnum_iff:
  "alnum c \<longleftrightarrow> c \<in> set ''abcdefghijklmnopqrstuvwxyzABCDEFGHIJKLMNOPQRSTUVWXYZ0123456789''"
proof (cases c)
  case (Char b0 b1 b2 b3 b4 b5 b6 b7)
  show ?thesis
    unfolding Char alnum_def Let_def
    by (cases b0; cases b1; cases b2; cases b3; cases b4; cases b5; cases b6; cases b7; simp)
qed

lemma split_at_0_prefix:
  "CHR ''@'' \<notin> set (split_at_0 s) \<and>
   (split_at_0 s = s \<or> (\<exists>rest. s = split_at_0 s @ CHR ''@'' # rest))"
proof -
  have a: "CHR ''@'' \<notin> set (split_at_0 s)"
    by (auto simp: split_at_0_def dest: set_takeWhileD)
  have b: "s = split_at_0 s @ dropWhile (\<lambda>c. c \<noteq> CHR ''@'') s"
    by (simp add: split_at_0_def)
  show ?thesis
  proof (cases "dropWhile (\<lambda>c. c \<noteq> CHR ''@'') s")
    case Nil
    with a b show ?thesis by simp
  next
    case (Cons x rest)
    then have "x = CHR ''@''"
      using hd_dropWhile [of "\<lambda>c. c \<noteq> CHR ''@''" s] by auto
    with a b Cons show ?thesis by metis
  qed
qed

text \<open>
  C6. The contract of \<open>me\<close>. For every email, \<open>me\<close> fails with
  \<open>Valid email is required\<close> (InvalidInput) exactly when the email is empty or has no
  \<open>@\<close>. For a valid email of a stored user, that user is returned and the world is
  unchanged. For a valid email of no stored user (and an unused id for the new row), a
  user is created and returned, appended to the user table, with the given email and,
  as name, the part of the email before its first \<open>@\<close> with every character outside
  \<open>[a-zA-Z0-9]\<close> removed, or \<open>User\<close> when nothing is left.
\<close>

theorem me_contract:
  "(fst (me cuid email w) = Inl (Error ''Valid email is required'')
      \<longleftrightarrow> email = [] \<or> CHR ''@'' \<notin> set email) \<and>
   (\<forall>u. email \<noteq> [] \<and> CHR ''@'' \<in> set email \<and> user_findUnique email (prisma w) = Some u
      \<longrightarrow> me cuid email w = (Inr u, w)) \<and>
   (email \<noteq> [] \<and> CHR ''@'' \<in> set email \<and> user_findUnique email (prisma w) = None \<and>
    cuid \<notin> set (map user_id (user_table (prisma w)))
      \<longrightarrow> (\<exists>u local rest.
             me cuid email w =
               (Inr u, w\<lparr> prisma := (prisma w)\<lparr> user_table := user_table (prisma w) @ [u] \<rparr> \<rparr>) \<and>
             user_id u = cuid \<and> user_email u = email \<and>
             email = local @ CHR ''@'' # rest \<and> CHR ''@'' \<notin> set local \<and>
             user_name u = (if filter alnum local = [] then ''User'' else filter alnum local)))"
proof (intro conjI allI impI)
  show "fst (me cuid email w) = Inl (Error ''Valid email is required'')
      \<longleftrightarrow> email = [] \<or> CHR ''@'' \<notin> set email"
    by (auto simp: me_def user_create_def Let_def split: option.splits if_splits)
next
  fix u
  assume "email \<noteq> [] \<and> CHR ''@'' \<in> set email \<and> user_findUnique email (prisma w) = Some u"
  then show "me cuid email w = (Inr u, w)"
    by (simp add: me_def)
next
  assume h: "email \<noteq> [] \<and> CHR ''@'' \<in> set email \<and> user_findUnique email (prisma w) = None \<and>
    cuid \<notin> set (map user_id (user_table (prisma w)))"
  define u where "u = \<lparr> user_id = cuid, user_name = me_name email, user_email = email \<rparr>"
  have m: "me cuid email w =
      (Inr u, w\<lparr> prisma := (prisma w)\<lparr> user_table := user_table (prisma w) @ [u] \<rparr> \<rparr>)"
  proof -
    from h have "email \<notin> set (map user_email (user_table (prisma w)))"
      by (simp add: user_findUnique_None)
    with h have "user_create cuid email (me_name email) (prisma w) =
        (Some u, (prisma w)\<lparr> user_table := user_table (prisma w) @ [u] \<rparr>)"
      unfolding u_def by (intro user_create_fresh) simp_all
    with h show ?thesis by (simp add: me_def)
  qed
  have "split_at_0 email \<noteq> email"
    using h split_at_0_prefix [of email] by auto
  then obtain rest where r: "email = split_at_0 email @ CHR ''@'' # rest"
    using split_at_0_prefix [of email] by auto
  have n: "CHR ''@'' \<notin> set (split_at_0 email)"
    using split_at_0_prefix [of email] by simp
  have nm: "user_name u =
      (if filter alnum (split_at_0 email) = [] then ''User'' else filter alnum (split_at_0 email))"
    by (simp add: u_def me_name_def Let_def)
  have i: "user_id u = cuid" "user_email u = email"
    by (simp_all add: u_def)
  from m i r n nm
  show "\<exists>u local rest.
             me cuid email w =
               (Inr u, w\<lparr> prisma := (prisma w)\<lparr> user_table := user_table (prisma w) @ [u] \<rparr> \<rparr>) \<and>
             user_id u = cuid \<and> user_email u = email \<and>
             email = local @ CHR ''@'' # rest \<and> CHR ''@'' \<notin> set local \<and>
             user_name u = (if filter alnum local = [] then ''User'' else filter alnum local)"
    by blast
qed

theorem me_contract_witness:
  "fst (me ''u4'' ''not-an-email'' seeded) = Inl (Error ''Valid email is required'') \<and>
   CHR ''@'' \<notin> set ''not-an-email'' \<and>
   ''bob@example.com'' \<noteq> [] \<and> CHR ''@'' \<in> set ''bob@example.com'' \<and>
   user_findUnique ''bob@example.com'' (prisma seeded) = Some bob \<and>
   me ''u4'' ''bob@example.com'' seeded = (Inr bob, seeded) \<and>
   ''.-@x.com'' \<noteq> [] \<and> CHR ''@'' \<in> set ''.-@x.com'' \<and>
   user_findUnique ''.-@x.com'' (prisma seeded) = None \<and>
   ''u4'' \<notin> set (map user_id (user_table (prisma seeded))) \<and>
   (\<exists>u local rest.
      me ''u4'' ''.-@x.com'' seeded =
        (Inr u, seeded\<lparr> prisma := (prisma seeded)\<lparr> user_table := user_table (prisma seeded) @ [u] \<rparr> \<rparr>) \<and>
      user_id u = ''u4'' \<and> user_email u = ''.-@x.com'' \<and>
      ''.-@x.com'' = local @ CHR ''@'' # rest \<and> CHR ''@'' \<notin> set local \<and>
      user_name u = (if filter alnum local = [] then ''User'' else filter alnum local)) \<and>
   me ''u4'' ''.-@x.com'' seeded =
     (Inr \<lparr> user_id = ''u4'', user_name = ''User'', user_email = ''.-@x.com'' \<rparr>,
      seeded\<lparr> prisma := (prisma seeded)\<lparr> user_table := user_table (prisma seeded) @
        [\<lparr> user_id = ''u4'', user_name = ''User'', user_email = ''.-@x.com'' \<rparr>] \<rparr> \<rparr>)"
proof -
  have h1: "CHR ''@'' \<notin> set ''not-an-email''" by simp
  have h2: "user_findUnique ''bob@example.com'' (prisma seeded) = Some bob"
    by (simp add: seed_defs store_defs)
  have h3: "user_findUnique ''.-@x.com'' (prisma seeded) = None"
    by (simp add: seed_defs store_defs)
  have h4: "''u4'' \<notin> set (map user_id (user_table (prisma seeded)))"
    by (simp add: seed_defs)
  have h5: "me ''u4'' ''.-@x.com'' seeded =
     (Inr \<lparr> user_id = ''u4'', user_name = ''User'', user_email = ''.-@x.com'' \<rparr>,
      seeded\<lparr> prisma := (prisma seeded)\<lparr> user_table := user_table (prisma seeded) @
        [\<lparr> user_id = ''u4'', user_name = ''User'', user_email = ''.-@x.com'' \<rparr>] \<rparr> \<rparr>)"
    by (simp add: seed_defs store_defs resolver_defs me_name_def alnum_def)
  show ?thesis
    using h1 h2 h3 h4 h5
      me_contract [of "''u4''" "''not-an-email''" seeded]
      me_contract [of "''u4''" "''bob@example.com''" seeded]
      me_contract [of "''u4''" "''.-@x.com''" seeded]
    by simp
qed


section \<open>The name joinEvent gives a new user\<close>

text \<open>
  C7. The name of a user created by joinEvent. When joinEvent (valid inputs, existing
  event, unused id) meets an email of no stored user, it appends a user whose name is
  the email up to its first \<open>@\<close>, as it is: the name has no \<open>@\<close> and the email is
  the name, or the name followed by \<open>@\<close> and the rest. Nothing is stripped and there
  is no fallback, so for some email (on the seeded store, \<open>dan.x@example.com\<close>) the
  name differs from the one \<open>me\<close> gives a user created for the same email.
\<close>

theorem joinEvent_literal_name:
  "(eventId \<noteq> [] \<and> userEmail \<noteq> [] \<and> event_findUnique eventId (prisma w) = Some ev \<and>
    user_findUnique userEmail (prisma w) = None \<and>
    cuid \<notin> set (map user_id (user_table (prisma w)))
      \<longrightarrow> (\<exists>ev' w' u rest.
             joinEvent cuid eventId userEmail w = (Inr ev', w') \<and>
             user_table (prisma w') = user_table (prisma w) @ [u] \<and>
             user_id u = cuid \<and> user_email u = userEmail \<and>
             CHR ''@'' \<notin> set (user_name u) \<and>
             (userEmail = user_name u \<or> userEmail = user_name u @ CHR ''@'' # rest))) \<and>
   (\<exists>email u1 w1 ev2 w2 u2.
      user_findUnique email (prisma seeded) = None \<and>
      me ''u4'' email seeded = (Inr u1, w1) \<and> user_table (prisma w1) = user_table (prisma seeded) @ [u1] \<and>
      joinEvent ''u4'' ''e3'' email seeded = (Inr ev2, w2) \<and>
      user_table (prisma w2) = user_table (prisma seeded) @ [u2] \<and>
      user_name u1 \<noteq> user_name u2)"
proof (intro conjI impI)
  assume h: "eventId \<noteq> [] \<and> userEmail \<noteq> [] \<and> event_findUnique eventId (prisma w) = Some ev \<and>
    user_findUnique userEmail (prisma w) = None \<and>
    cuid \<notin> set (map user_id (user_table (prisma w)))"
  define u where "u = \<lparr> user_id = cuid, user_name = split_at_0 userEmail, user_email = userEmail \<rparr>"
  define s2 where "s2 = (prisma w)\<lparr> user_table := user_table (prisma w) @ [u],
                             UserEvents := List.insert (eventId, cuid) (UserEvents (prisma w)) \<rparr>"
  from h have j: "\<exists>ev' io'. joinEvent cuid eventId userEmail w = (Inr ev', \<lparr> prisma = s2, io = io' \<rparr>)"
    using joinEvent_new_user [of eventId userEmail w ev cuid u s2]
    by (simp add: u_def s2_def)
  have t: "user_table s2 = user_table (prisma w) @ [u]" by (simp add: s2_def)
  have i: "user_id u = cuid" "user_email u = userEmail" "user_name u = split_at_0 userEmail"
    by (simp_all add: u_def)
  from split_at_0_prefix [of userEmail]
  obtain rest where p: "CHR ''@'' \<notin> set (split_at_0 userEmail)"
    "userEmail = split_at_0 userEmail \<or> userEmail = split_at_0 userEmail @ CHR ''@'' # rest"
    by metis
  from j obtain ev' io' where
    "joinEvent cuid eventId userEmail w = (Inr ev', \<lparr> prisma = s2, io = io' \<rparr>)" by blast
  with t i p
  have "joinEvent cuid eventId userEmail w = (Inr ev', \<lparr> prisma = s2, io = io' \<rparr>) \<and>
             user_table (prisma \<lparr> prisma = s2, io = io' \<rparr>) = user_table (prisma w) @ [u] \<and>
             user_id u = cuid \<and> user_email u = userEmail \<and>
             CHR ''@'' \<notin> set (user_name u) \<and>
             (userEmail = user_name u \<or> userEmail = user_name u @ CHR ''@'' # rest)"
    by simp
  then show "\<exists>ev' w' u rest.
             joinEvent cuid eventId userEmail w = (Inr ev', w') \<and>
             user_table (prisma w') = user_table (prisma w) @ [u] \<and>
             user_id u = cuid \<and> user_email u = userEmail \<and>
             CHR ''@'' \<notin> set (user_name u) \<and>
             (userEmail = user_name u \<or> userEmail = user_name u @ CHR ''@'' # rest)"
    by blast
next
  let ?e = "''dan.x@example.com''"
  let ?u1 = "\<lparr> user_id = ''u4'', user_name = ''danx'', user_email = ?e \<rparr>"
  let ?u2 = "\<lparr> user_id = ''u4'', user_name = ''dan.x'', user_email = ?e \<rparr>"
  have a: "user_findUnique ?e (prisma seeded) = None"
    by (simp add: seed_defs store_defs)
  have b: "me ''u4'' ?e seeded =
      (Inr ?u1, seeded\<lparr> prisma := (prisma seeded)\<lparr> user_table := user_table (prisma seeded) @ [?u1] \<rparr> \<rparr>)"
    by (simp add: seed_defs store_defs resolver_defs me_name_def alnum_def)
  have c: "\<exists>ev2 w2. joinEvent ''u4'' ''e3'' ?e seeded = (Inr ev2, w2) \<and>
      user_table (prisma w2) = user_table (prisma seeded) @ [?u2]"
    by (simp add: seed_defs store_defs resolver_defs)
  then obtain ev2 w2 where c': "joinEvent ''u4'' ''e3'' ?e seeded = (Inr ev2, w2)"
      "user_table (prisma w2) = user_table (prisma seeded) @ [?u2]" by blast
  have d: "user_name ?u1 \<noteq> user_name ?u2" by simp
  let ?w1 = "seeded\<lparr> prisma := (prisma seeded)\<lparr> user_table := user_table (prisma seeded) @ [?u1] \<rparr> \<rparr>"
  have "user_findUnique ?e (prisma seeded) = None \<and>
      me ''u4'' ?e seeded = (Inr ?u1, ?w1) \<and> user_table (prisma ?w1) = user_table (prisma seeded) @ [?u1] \<and>
      joinEvent ''u4'' ''e3'' ?e seeded = (Inr ev2, w2) \<and>
      user_table (prisma w2) = user_table (prisma seeded) @ [?u2] \<and>
      user_name ?u1 \<noteq> user_name ?u2"
    using a b c' by simp
  then show "\<exists>email u1 w1 ev2 w2 u2.
      user_findUnique email (prisma seeded) = None \<and>
      me ''u4'' email seeded = (Inr u1, w1) \<and> user_table (prisma w1) = user_table (prisma seeded) @ [u1] \<and>
      joinEvent ''u4'' ''e3'' email seeded = (Inr ev2, w2) \<and>
      user_table (prisma w2) = user_table (prisma seeded) @ [u2] \<and>
      user_name u1 \<noteq> user_name u2"
    by blast
qed

theorem joinEvent_literal_name_witness:
  "''e3'' \<noteq> [] \<and> ''a.b+c@x.com'' \<noteq> [] \<and>
   event_findUnique ''e3'' (prisma seeded) = Some (include_attendees seed food_fair) \<and>
   user_findUnique ''a.b+c@x.com'' (prisma seeded) = None \<and>
   ''u4'' \<notin> set (map user_id (user_table (prisma seeded))) \<and>
   (\<exists>ev' w' u rest.
      joinEvent ''u4'' ''e3'' ''a.b+c@x.com'' seeded = (Inr ev', w') \<and>
      user_table (prisma w') = user_table (prisma seeded) @ [u] \<and>
      user_id u = ''u4'' \<and> user_email u = ''a.b+c@x.com'' \<and>
      CHR ''@'' \<notin> set (user_name u) \<and>
      (''a.b+c@x.com'' = user_name u \<or> ''a.b+c@x.com'' = user_name u @ CHR ''@'' # rest))"
proof -
  have h1: "event_findUnique ''e3'' (prisma seeded) = Some (include_attendees seed food_fair)"
    by (simp add: seed_defs store_defs)
  have h2: "user_findUnique ''a.b+c@x.com'' (prisma seeded) = None"
    by (simp add: seed_defs store_defs)
  have h3: "''u4'' \<notin> set (map user_id (user_table (prisma seeded)))"
    by (simp add: seed_defs)
  show ?thesis
    using h1 h2 h3
      joinEvent_literal_name [of "''e3''" "''a.b+c@x.com''" seeded "include_attendees seed food_fair" "''u4''"]
    by simp
qed


section \<open>What joining and leaving leave alone\<close>

text \<open>What joinEvent and leaveEvent can do to the store.\<close>

lemma joinEvent_store:
  "\<exists>us es. prisma (snd (joinEvent cuid eventId userEmail w)) =
             (prisma w)\<lparr> user_table := user_table (prisma w) @ us, UserEvents := es \<rparr> \<and>
           (\<forall>x \<in> set us. user_id x \<notin> set (map user_id (user_table (prisma w)))) \<and>
           (\<forall>e uid. e \<noteq> eventId \<longrightarrow>
              ((e, uid) \<in> set es \<longleftrightarrow> (e, uid) \<in> set (UserEvents (prisma w))))"
proof (cases "joinEvent cuid eventId userEmail w")
  case (Pair r w')
  show ?thesis
  proof (cases r)
    case (Inl err)
    with Pair have "snd (joinEvent cuid eventId userEmail w) = w"
      by (intro joinEvent_error_unchanged [of _ _ _ _ err]) simp
    then have "prisma (snd (joinEvent cuid eventId userEmail w)) =
             (prisma w)\<lparr> user_table := user_table (prisma w) @ [], UserEvents := UserEvents (prisma w) \<rparr>"
      by simp
    then show ?thesis by (intro exI [of _ "[]"] exI [of _ "UserEvents (prisma w)"]) simp
  next
    case (Inr ev')
    with Pair have j: "joinEvent cuid eventId userEmail w = (Inr ev', w')" by simp
    then have v: "eventId \<noteq> []" "userEmail \<noteq> []"
      by (auto simp: joinEvent_def split: if_splits)
    from j v obtain ev where ev: "event_findUnique eventId (prisma w) = Some ev"
      by (cases "event_findUnique eventId (prisma w)") (auto simp: joinEvent_def)
    show ?thesis
    proof (cases "\<exists>a \<in> set (attendees ev). user_email a = userEmail")
      case True
      with joinEvent_success [OF j ev] have "w' = w" by auto
      with j have "prisma (snd (joinEvent cuid eventId userEmail w)) =
             (prisma w)\<lparr> user_table := user_table (prisma w) @ [], UserEvents := UserEvents (prisma w) \<rparr>"
        by simp
      then show ?thesis by (intro exI [of _ "[]"] exI [of _ "UserEvents (prisma w)"]) simp
    next
      case False
      show ?thesis
      proof (cases "user_findUnique userEmail (prisma w)")
        case (Some u)
        define s2 where "s2 = (prisma w)\<lparr> UserEvents := List.insert (eventId, user_id u) (UserEvents (prisma w)) \<rparr>"
        note r = joinEvent_existing_user [OF v ev False Some s2_def, of cuid]
        have "prisma (snd (joinEvent cuid eventId userEmail w)) =
             (prisma w)\<lparr> user_table := user_table (prisma w) @ [],
               UserEvents := List.insert (eventId, user_id u) (UserEvents (prisma w)) \<rparr>"
          using r by (simp add: s2_def)
        then show ?thesis
          by (intro exI [of _ "[]"] exI [of _ "List.insert (eventId, user_id u) (UserEvents (prisma w))"]) simp
      next
        case None
        have fresh: "cuid \<notin> set (map user_id (user_table (prisma w)))"
          using j v ev None
          by (auto simp: joinEvent_def user_create_def split: if_splits)
        define u where "u = \<lparr> user_id = cuid, user_name = split_at_0 userEmail, user_email = userEmail \<rparr>"
        define s2 where "s2 = (prisma w)\<lparr> user_table := user_table (prisma w) @ [u],
                             UserEvents := List.insert (eventId, cuid) (UserEvents (prisma w)) \<rparr>"
        note r = joinEvent_new_user [OF v ev None fresh u_def s2_def]
        have "prisma (snd (joinEvent cuid eventId userEmail w)) =
             (prisma w)\<lparr> user_table := user_table (prisma w) @ [u],
               UserEvents := List.insert (eventId, cuid) (UserEvents (prisma w)) \<rparr>"
          using r by (simp add: s2_def)
        then show ?thesis
          using fresh
          by (intro exI [of _ "[u]"] exI [of _ "List.insert (eventId, cuid) (UserEvents (prisma w))"])
            (simp add: u_def)
      qed
    qed
  qed
qed

lemma leaveEvent_store:
  "\<exists>es. prisma (snd (leaveEvent eventId userEmail w)) = (prisma w)\<lparr> UserEvents := es \<rparr> \<and>
        (\<forall>e uid. e \<noteq> eventId \<longrightarrow>
              ((e, uid) \<in> set es \<longleftrightarrow> (e, uid) \<in> set (UserEvents (prisma w))))"
proof -
  have "prisma (snd (leaveEvent eventId userEmail w)) = prisma w \<or>
        (\<exists>uid. prisma (snd (leaveEvent eventId userEmail w)) =
           (prisma w)\<lparr> UserEvents := removeAll (eventId, uid) (UserEvents (prisma w)) \<rparr>)"
    by (auto simp: leaveEvent_def event_update_disconnect_def Let_def
        split: option.splits)
  then show ?thesis
  proof
    assume "prisma (snd (leaveEvent eventId userEmail w)) = prisma w"
    then have "prisma (snd (leaveEvent eventId userEmail w)) =
        (prisma w)\<lparr> UserEvents := UserEvents (prisma w) \<rparr>" by simp
    then show ?thesis by blast
  next
    assume "\<exists>uid. prisma (snd (leaveEvent eventId userEmail w)) =
           (prisma w)\<lparr> UserEvents := removeAll (eventId, uid) (UserEvents (prisma w)) \<rparr>"
    then obtain uid where "prisma (snd (leaveEvent eventId userEmail w)) =
           (prisma w)\<lparr> UserEvents := removeAll (eventId, uid) (UserEvents (prisma w)) \<rparr>" by blast
    then show ?thesis
      by (intro exI [of _ "removeAll (eventId, uid) (UserEvents (prisma w))"]) simp
  qed
qed

lemma attendees_of_frame:
  assumes wf: "wf_store s"
    and new: "\<forall>x \<in> set us. user_id x \<notin> set (map user_id (user_table s))"
    and same: "\<forall>uid. (e, uid) \<in> set es \<longleftrightarrow> (e, uid) \<in> set (UserEvents s)"
  shows "attendees_of (s\<lparr> user_table := user_table s @ us, UserEvents := es \<rparr>) e = attendees_of s e"
proof -
  have "filter (\<lambda>u. (e, user_id u) \<in> set (UserEvents s)) us = []"
    using new wf_edge_user [OF wf] by (auto simp: filter_empty_conv)
  then show ?thesis
    using same by (simp add: attendees_of_def)
qed

text \<open>
  C8. The frame of joinEvent and leaveEvent. Every call leaves the event table as it
  is (so the name, location and start time of every event), and keeps every stored user
  row: leaveEvent leaves the user table as it is, joinEvent at most appends to it. In a
  well-formed store, the attendee set of every event other than the one named in the
  call is unchanged, by joinEvent and by leaveEvent.
\<close>

theorem membership_frame:
  "event_table (prisma (snd (joinEvent cuid eventId userEmail w))) = event_table (prisma w) \<and>
   (\<exists>new. user_table (prisma (snd (joinEvent cuid eventId userEmail w))) = user_table (prisma w) @ new) \<and>
   event_table (prisma (snd (leaveEvent eventId userEmail w))) = event_table (prisma w) \<and>
   user_table (prisma (snd (leaveEvent eventId userEmail w))) = user_table (prisma w) \<and>
   (wf_store (prisma w) \<longrightarrow>
     (\<forall>e. e \<noteq> eventId \<longrightarrow>
        set (attendees_of (prisma (snd (joinEvent cuid eventId userEmail w))) e) =
        set (attendees_of (prisma w) e)) \<and>
     (\<forall>e. e \<noteq> eventId \<longrightarrow>
        set (attendees_of (prisma (snd (leaveEvent eventId userEmail w))) e) =
        set (attendees_of (prisma w) e)))"
proof -
  from joinEvent_store [of cuid eventId userEmail w]
  obtain us es where j: "prisma (snd (joinEvent cuid eventId userEmail w)) =
             (prisma w)\<lparr> user_table := user_table (prisma w) @ us, UserEvents := es \<rparr>"
    "\<forall>x \<in> set us. user_id x \<notin> set (map user_id (user_table (prisma w)))"
    "\<forall>e uid. e \<noteq> eventId \<longrightarrow> ((e, uid) \<in> set es \<longleftrightarrow> (e, uid) \<in> set (UserEvents (prisma w)))"
    by blast
  from leaveEvent_store [of eventId userEmail w]
  obtain es' where l: "prisma (snd (leaveEvent eventId userEmail w)) = (prisma w)\<lparr> UserEvents := es' \<rparr>"
    "\<forall>e uid. e \<noteq> eventId \<longrightarrow> ((e, uid) \<in> set es' \<longleftrightarrow> (e, uid) \<in> set (UserEvents (prisma w)))"
    by blast
  have l': "prisma (snd (leaveEvent eventId userEmail w)) =
      (prisma w)\<lparr> user_table := user_table (prisma w) @ [], UserEvents := es' \<rparr>"
    using l(1) by simp
  have a: "attendees_of (prisma (snd (joinEvent cuid eventId userEmail w))) e = attendees_of (prisma w) e"
    if "e \<noteq> eventId" "wf_store (prisma w)" for e
    unfolding j(1) using j(2) j(3) that by (intro attendees_of_frame) auto
  have b: "attendees_of (prisma (snd (leaveEvent eventId userEmail w))) e = attendees_of (prisma w) e"
    if "e \<noteq> eventId" "wf_store (prisma w)" for e
    unfolding l' using l(2) that by (intro attendees_of_frame) auto
  show ?thesis
    using a b by (simp add: j(1) l(1))
qed

theorem membership_frame_witness:
  "event_table (prisma (snd (joinEvent ''u4'' ''e2'' ''dan@example.com'' seeded))) = event_table (prisma seeded) \<and>
   user_table (prisma (snd (joinEvent ''u4'' ''e2'' ''dan@example.com'' seeded))) =
     user_table (prisma seeded) @ [\<lparr> user_id = ''u4'', user_name = ''dan'', user_email = ''dan@example.com'' \<rparr>] \<and>
   event_table (prisma (snd (leaveEvent ''e2'' ''alice@example.com'' seeded))) = event_table (prisma seeded) \<and>
   user_table (prisma (snd (leaveEvent ''e2'' ''alice@example.com'' seeded))) = user_table (prisma seeded) \<and>
   wf_store (prisma seeded) \<and> ''e1'' \<noteq> ''e2'' \<and>
   set (attendees_of (prisma (snd (joinEvent ''u4'' ''e2'' ''dan@example.com'' seeded))) ''e1'') =
     set (attendees_of (prisma seeded) ''e1'') \<and>
   set (attendees_of (prisma (snd (leaveEvent ''e2'' ''alice@example.com'' seeded))) ''e1'') =
     set (attendees_of (prisma seeded) ''e1'') \<and>
   UserEvents (prisma (snd (joinEvent ''u4'' ''e2'' ''dan@example.com'' seeded))) \<noteq> UserEvents (prisma seeded) \<and>
   UserEvents (prisma (snd (leaveEvent ''e2'' ''alice@example.com'' seeded))) \<noteq> UserEvents (prisma seeded)"
proof -
  have h1: "wf_store (prisma seeded)"
    by (simp add: seed_defs store_defs)
  have h2: "user_table (prisma (snd (joinEvent ''u4'' ''e2'' ''dan@example.com'' seeded))) =
     user_table (prisma seeded) @ [\<lparr> user_id = ''u4'', user_name = ''dan'', user_email = ''dan@example.com'' \<rparr>]"
    by (simp add: seed_defs store_defs resolver_defs)
  have h3: "UserEvents (prisma (snd (joinEvent ''u4'' ''e2'' ''dan@example.com'' seeded))) \<noteq> UserEvents (prisma seeded)"
    by (simp add: seed_defs store_defs resolver_defs)
  have h4: "UserEvents (prisma (snd (leaveEvent ''e2'' ''alice@example.com'' seeded))) \<noteq> UserEvents (prisma seeded)"
    by (simp add: seed_defs store_defs resolver_defs)
  have h5: "''e1'' \<noteq> ''e2''" by simp
  note f1 = membership_frame [of "''u4''" "''e2''" "''dan@example.com''" seeded]
  note f2 = membership_frame [of "''u4''" "''e2''" "''alice@example.com''" seeded]
  note a = f1 [THEN conjunct2, THEN conjunct2, THEN conjunct2, THEN conjunct2, THEN mp, OF h1,
      THEN conjunct1, THEN spec, of "''e1''", THEN mp, OF h5]
  note b = f2 [THEN conjunct2, THEN conjunct2, THEN conjunct2, THEN conjunct2, THEN mp, OF h1,
      THEN conjunct2, THEN spec, of "''e1''", THEN mp, OF h5]
  note c = f1 [THEN conjunct1]
  note d = f2 [THEN conjunct2, THEN conjunct2, THEN conjunct1]
  note e = f2 [THEN conjunct2, THEN conjunct2, THEN conjunct2, THEN conjunct1]
  show ?thesis
    by (intro conjI c h2 d e h1 h5 a b h3 h4)
qed

section \<open>The query events\<close>

lemma event_startTime_include [simp]:
  "event_startTime (include_attendees s e) = event_startTime e"
  by (simp add: include_attendees_def)

text \<open>
  C9. The query \<open>events\<close> returns the stored events in ascending order of start
  time, every one of them and nothing else (as many rows as the event table has, the
  same rows up to order), each with the attendees the store holds for its id.
\<close>

theorem events_sorted_complete:
  "sorted (map event_startTime (events w)) \<and>
   mset (events w) = mset (map (include_attendees (prisma w)) (event_table (prisma w))) \<and>
   length (events w) = length (event_table (prisma w)) \<and>
   (\<forall>ev \<in> set (events w). attendees ev = attendees_of (prisma w) (event_id ev))"
proof -
  have "map event_startTime (events w) = map event_startTime (sort_key event_startTime (event_table (prisma w)))"
    by (simp add: events_def event_findMany_def comp_def)
  then have s: "sorted (map event_startTime (events w))"
    by (simp add: sorted_sort_key)
  have m: "mset (events w) = mset (map (include_attendees (prisma w)) (event_table (prisma w)))"
    by (simp add: events_def event_findMany_def)
  have l: "length (events w) = length (event_table (prisma w))"
    by (simp add: events_def event_findMany_def)
  have a: "\<forall>ev \<in> set (events w). attendees ev = attendees_of (prisma w) (event_id ev)"
    by (auto simp: events_def event_findMany_def)
  from s m l a show ?thesis by blast
qed

theorem events_sorted_complete_witness:
  "events \<lparr> prisma = seed\<lparr> event_table := [food_fair, tech_meetup, music_festival] \<rparr>, io = [] \<rparr> =
     [(include_attendees seed tech_meetup)\<lparr> attendees := [alice, bob] \<rparr>,
      (include_attendees seed music_festival)\<lparr> attendees := [alice] \<rparr>,
      (include_attendees seed food_fair)\<lparr> attendees := [] \<rparr>] \<and>
   sorted (map event_startTime
     (events \<lparr> prisma = seed\<lparr> event_table := [food_fair, tech_meetup, music_festival] \<rparr>, io = [] \<rparr>)) \<and>
   length (events \<lparr> prisma = seed\<lparr> event_table := [food_fair, tech_meetup, music_festival] \<rparr>, io = [] \<rparr>) = 3 \<and>
   (include_attendees seed tech_meetup)\<lparr> attendees := [alice, bob] \<rparr>
     \<in> set (events \<lparr> prisma = seed\<lparr> event_table := [food_fair, tech_meetup, music_festival] \<rparr>, io = [] \<rparr>) \<and>
   attendees ((include_attendees seed tech_meetup)\<lparr> attendees := [alice, bob] \<rparr>) =
     attendees_of (seed\<lparr> event_table := [food_fair, tech_meetup, music_festival] \<rparr>) ''e1''"
proof -
  let ?w = "\<lparr> prisma = seed\<lparr> event_table := [food_fair, tech_meetup, music_festival] \<rparr>, io = [] \<rparr>"
  let ?ev = "(include_attendees seed tech_meetup)\<lparr> attendees := [alice, bob] \<rparr>"
  have e: "events ?w =
     [?ev, (include_attendees seed music_festival)\<lparr> attendees := [alice] \<rparr>,
      (include_attendees seed food_fair)\<lparr> attendees := [] \<rparr>]"
    by (simp add: events_def event_findMany_def seed_defs store_defs)
  have t: "length (event_table (prisma ?w)) = 3" by simp
  have m: "?ev \<in> set (events ?w)" unfolding e by simp
  have i: "event_id ?ev = ''e1''" by (simp add: tech_meetup_def)
  note c = events_sorted_complete [of ?w]
  note c1 = c [THEN conjunct1]
  note c3 = c [THEN conjunct2, THEN conjunct2, THEN conjunct1, unfolded t]
  note c4 = c [THEN conjunct2, THEN conjunct2, THEN conjunct2, THEN bspec, OF m, unfolded i]
  have c4': "attendees ?ev =
     attendees_of (seed\<lparr> event_table := [food_fair, tech_meetup, music_festival] \<rparr>) ''e1''"
    using c4 by simp
  show ?thesis
    by (intro conjI e c1 c3 m c4')
qed

section \<open>Well-formedness is kept\<close>

text \<open>
  The seeded store is well-formed, and \<open>me\<close>, joinEvent and leaveEvent keep a
  well-formed store well-formed, whatever their arguments: the theorems above that
  assume a well-formed store speak of every store these calls can reach from the seed.
\<close>

lemma wf_store_seed: "wf_store seed"
  by (simp add: seed_defs store_defs)

lemma wf_store_user_added:
  assumes "wf_store s" "c \<notin> set (map user_id (user_table s))"
    "em \<notin> set (map user_email (user_table s))" "em \<noteq> []"
  shows "wf_store (s\<lparr> user_table := user_table s @ [\<lparr> user_id = c, user_name = n, user_email = em \<rparr>] \<rparr>)"
  using assms by (auto simp: wf_store_def list_all_iff)

lemma wf_store_connected:
  assumes "wf_store s" "eid \<in> set (map event_id (event_table s))"
    "uid \<in> set (map user_id (user_table s))"
  shows "wf_store (s\<lparr> UserEvents := List.insert (eid, uid) (UserEvents s) \<rparr>)"
  using assms by (auto simp: wf_store_def list_all_iff)

lemma wf_store_disconnected:
  assumes "wf_store s"
  shows "wf_store (s\<lparr> UserEvents := removeAll (eid, uid) (UserEvents s) \<rparr>)"
  using assms by (auto simp: wf_store_def list_all_iff distinct_removeAll)

lemma me_wf_store:
  assumes "wf_store (prisma w)"
  shows "wf_store (prisma (snd (me cuid email w)))"
proof (cases "email = [] \<or> CHR ''@'' \<notin> set email")
  case True
  then show ?thesis using assms by (simp add: me_def)
next
  case False
  show ?thesis
  proof (cases "user_findUnique email (prisma w)")
    case (Some u)
    with False assms show ?thesis by (simp add: me_def)
  next
    case None
    show ?thesis
    proof (cases "user_create cuid email (me_name email) (prisma w)")
      case (Pair r s)
      show ?thesis
      proof (cases r)
        case N: None
        with Pair have "s = prisma w" by (auto dest: user_create_None)
        with False None Pair N assms show ?thesis by (simp add: me_def)
      next
        case (Some u)
        with Pair have "wf_store s"
          using False assms wf_store_user_added [of "prisma w" cuid email "me_name email"]
          by (auto dest!: user_create_Some)
        with False None Pair Some show ?thesis by (simp add: me_def)
      qed
    qed
  qed
qed

lemma leaveEvent_wf_store:
  assumes "wf_store (prisma w)"
  shows "wf_store (prisma (snd (leaveEvent eventId userEmail w)))"
proof -
  have "prisma (snd (leaveEvent eventId userEmail w)) = prisma w \<or>
        (\<exists>uid. prisma (snd (leaveEvent eventId userEmail w)) =
           (prisma w)\<lparr> UserEvents := removeAll (eventId, uid) (UserEvents (prisma w)) \<rparr>)"
    by (auto simp: leaveEvent_def event_update_disconnect_def Let_def
        split: option.splits)
  with assms show ?thesis
    by (auto intro: wf_store_disconnected)
qed

lemma joinEvent_wf_store:
  assumes wf: "wf_store (prisma w)"
  shows "wf_store (prisma (snd (joinEvent cuid eventId userEmail w)))"
proof (cases "joinEvent cuid eventId userEmail w")
  case (Pair r w')
  show ?thesis
  proof (cases r)
    case (Inl err)
    with Pair have "snd (joinEvent cuid eventId userEmail w) = w"
      by (intro joinEvent_error_unchanged [of _ _ _ _ err]) simp
    with wf show ?thesis by simp
  next
    case (Inr ev')
    with Pair have j: "joinEvent cuid eventId userEmail w = (Inr ev', w')" by simp
    then have v: "eventId \<noteq> []" "userEmail \<noteq> []"
      by (auto simp: joinEvent_def split: if_splits)
    from j v obtain ev where ev: "event_findUnique eventId (prisma w) = Some ev"
      by (cases "event_findUnique eventId (prisma w)") (auto simp: joinEvent_def)
    then have eid: "eventId \<in> set (map event_id (event_table (prisma w)))"
      by (auto dest!: event_findUnique_Some)
    show ?thesis
    proof (cases "\<exists>a \<in> set (attendees ev). user_email a = userEmail")
      case True
      with joinEvent_success [OF j ev] have "w' = w" by auto
      with j wf show ?thesis by simp
    next
      case False
      show ?thesis
      proof (cases "user_findUnique userEmail (prisma w)")
        case (Some u)
        define s2 where "s2 = (prisma w)\<lparr> UserEvents := List.insert (eventId, user_id u) (UserEvents (prisma w)) \<rparr>"
        note r = joinEvent_existing_user [OF v ev False Some s2_def, of cuid]
        have "user_id u \<in> set (map user_id (user_table (prisma w)))"
          using user_findUnique_Some [OF Some] by auto
        with wf eid have "wf_store s2"
          unfolding s2_def by (intro wf_store_connected)
        with r show ?thesis by simp
      next
        case None
        have fresh: "cuid \<notin> set (map user_id (user_table (prisma w)))"
          using j v ev None
          by (auto simp: joinEvent_def user_create_def split: if_splits)
        define u where "u = \<lparr> user_id = cuid, user_name = split_at_0 userEmail, user_email = userEmail \<rparr>"
        define s1 where "s1 = (prisma w)\<lparr> user_table := user_table (prisma w) @ [u] \<rparr>"
        define s2 where "s2 = (prisma w)\<lparr> user_table := user_table (prisma w) @ [u],
                             UserEvents := List.insert (eventId, cuid) (UserEvents (prisma w)) \<rparr>"
        note r = joinEvent_new_user [OF v ev None fresh u_def s2_def]
        have "userEmail \<notin> set (map user_email (user_table (prisma w)))"
          using None by (simp add: user_findUnique_None)
        with wf fresh v have w1: "wf_store s1"
          unfolding s1_def u_def by (intro wf_store_user_added)
        have "wf_store (s1\<lparr> UserEvents := List.insert (eventId, cuid) (UserEvents s1) \<rparr>)"
          using w1 eid by (intro wf_store_connected) (simp_all add: s1_def u_def)
        then have "wf_store s2" by (simp add: s1_def s2_def)
        with r show ?thesis by simp
      qed
    qed
  qed
qed


end
